theory Spec2Isabelle
  imports Complex_Main
begin

section \<open>Go strings and the standard-library functions the program calls\<close>

text \<open>
  A Go string is a sequence of bytes, so it is modelled as \<open>string\<close> (a list of 8-bit
  characters) and Go's \<open>len\<close> is \<open>length\<close>: it counts bytes of the UTF-8 encoding.
  The functions below are the ones of package \<open>strings\<close> and \<open>fmt\<close> that the program
  uses, written for the arguments the program passes.
\<close>

definition HasPrefix :: "string \<Rightarrow> string \<Rightarrow> bool" where
  "HasPrefix s p = (take (length p) s = p)"

fun Contains :: "string \<Rightarrow> string \<Rightarrow> bool" where
  "Contains [] sub = (sub = [])"
| "Contains (c # s) sub = (HasPrefix (c # s) sub \<or> Contains s sub)"

text \<open>\<open>strings.Split(s, sep)\<close> for a separator of one byte (the program splits on a newline only).\<close>

fun Split :: "string \<Rightarrow> char \<Rightarrow> string list" where
  "Split [] sep = [[]]"
| "Split (c # s) sep =
     (if c = sep then [] # Split s sep
      else (case Split s sep of
              [] \<Rightarrow> [[c]]
            | l # ls \<Rightarrow> (c # l) # ls))"

text \<open>
  \<open>strings.ReplaceAll(s, old, new)\<close>: the non-overlapping occurrences of \<open>old\<close> are replaced
  from left to right. The program passes a non-empty \<open>old\<close> only; for an empty \<open>old\<close> (where
  Go inserts \<open>new\<close> around every rune) this model returns \<open>s\<close> and is not to be used.
\<close>

function ReplaceAll :: "string \<Rightarrow> string \<Rightarrow> string \<Rightarrow> string" where
  "ReplaceAll s old new =
     (if s = [] \<or> old = [] then s
      else if HasPrefix s old then new @ ReplaceAll (drop (length old) s) old new
      else hd s # ReplaceAll (tl s) old new)"
  by pat_completeness auto
termination
  by (relation "measure (\<lambda>(s, old, new). length s)") auto

declare ReplaceAll.simps [simp del]

text \<open>The verb \<open>%d\<close> of \<open>fmt.Sprintf\<close>: a decimal numeral, with a minus sign when negative.\<close>

definition digit_char :: "nat \<Rightarrow> char" where
  "digit_char d = ''0123456789'' ! d"

fun decimal :: "nat \<Rightarrow> string" where
  "decimal n = (if n < 10 then [digit_char n] else decimal (n div 10) @ [digit_char (n mod 10)])"

declare decimal.simps [simp del]

definition fmt_d :: "int \<Rightarrow> string" where
  "fmt_d i = (if i < 0 then CHR ''-'' # decimal (nat (- i)) else decimal (nat i))"

text \<open>
  \<open>strings.TrimSpace\<close> removes the leading and trailing runes that \<open>unicode.IsSpace\<close>
  accepts: the six ASCII ones (tab, newline, vertical tab, form feed, carriage return,
  space) and, in their UTF-8 encodings, U+0085, U+00A0, U+1680, U+2000..U+200A, U+2028,
  U+2029, U+202F, U+205F and U+3000. \<open>space_width s\<close> is the number of bytes of the white
  space rune that \<open>s\<close> starts with, 0 when it starts with none.
\<close>

definition ascii_space :: "char \<Rightarrow> bool" where
  "ascii_space c = (let n = (of_char c :: nat) in (9 \<le> n \<and> n \<le> 13) \<or> n = 32)"

definition space_width :: "string \<Rightarrow> nat" where
  "space_width s =
     (case map of_char s of
        [] \<Rightarrow> 0
      | (b0 :: nat) # bs \<Rightarrow>
          if (9 \<le> b0 \<and> b0 \<le> 13) \<or> b0 = 32 then 1
          else if b0 = 0xC2 then
            (case bs of b1 # _ \<Rightarrow> if b1 = 0x85 \<or> b1 = 0xA0 then 2 else 0 | _ \<Rightarrow> 0)
          else if b0 = 0xE1 then
            (case bs of b1 # b2 # _ \<Rightarrow> if b1 = 0x9A \<and> b2 = 0x80 then 3 else 0 | _ \<Rightarrow> 0)
          else if b0 = 0xE2 then
            (case bs of
               b1 # b2 # _ \<Rightarrow>
                 if b1 = 0x80 \<and> ((0x80 \<le> b2 \<and> b2 \<le> 0x8A) \<or> b2 = 0xA8 \<or> b2 = 0xA9 \<or> b2 = 0xAF)
                 then 3
                 else if b1 = 0x81 \<and> b2 = 0x9F then 3 else 0
             | _ \<Rightarrow> 0)
          else if b0 = 0xE3 then
            (case bs of b1 # b2 # _ \<Rightarrow> if b1 = 0x80 \<and> b2 = 0x80 then 3 else 0 | _ \<Rightarrow> 0)
          else 0)"

text \<open>The same for the rune that a string ends with, read on the reversed bytes.\<close>

definition space_width_end :: "string \<Rightarrow> nat" where
  "space_width_end r =
     (case r of
        [] \<Rightarrow> 0
      | c # _ \<Rightarrow>
          if ascii_space c then 1
          else if space_width (rev (take 2 r)) = 2 then 2
          else if space_width (rev (take 3 r)) = 3 then 3
          else 0)"

function TrimLeftSpace :: "string \<Rightarrow> string" where
  "TrimLeftSpace s =
     (if s = [] \<or> space_width s = 0 then s else TrimLeftSpace (drop (space_width s) s))"
  by pat_completeness auto
termination
  by (relation "measure length") auto

declare TrimLeftSpace.simps [simp del]

function drop_space_end :: "string \<Rightarrow> string" where
  "drop_space_end r =
     (if r = [] \<or> space_width_end r = 0 then r else drop_space_end (drop (space_width_end r) r))"
  by pat_completeness auto
termination
  by (relation "measure length") auto

declare drop_space_end.simps [simp del]

definition TrimRightSpace :: "string \<Rightarrow> string" where
  "TrimRightSpace s = rev (drop_space_end (rev s))"

definition TrimSpace :: "string \<Rightarrow> string" where
  "TrimSpace s = TrimRightSpace (TrimLeftSpace s)"

text \<open>
  \<open>strings.ToLower\<close>. On a string of ASCII bytes only, Go maps \<open>A..Z\<close> to \<open>a..z\<close> byte by
  byte and leaves every other byte. On a string with a byte above 0x7F it returns
  \<open>strings.Map(unicode.ToLower, s)\<close>, which decodes the runes and maps them through the
  Unicode case tables of the Go release (U+0130 becomes \<open>i\<close>, for instance). These tables
  are not part of the program, so that branch is the parameter \<open>mapLower\<close>: every
  property below holds whatever the tables are.
\<close>

definition isASCII :: "string \<Rightarrow> bool" where
  "isASCII s = list_all (\<lambda>c. (of_char c :: nat) < 128) s"

definition is_upper :: "char \<Rightarrow> bool" where
  "is_upper c = (let n = (of_char c :: nat) in 65 \<le> n \<and> n \<le> 90)"

definition lower_byte :: "char \<Rightarrow> char" where
  "lower_byte c = (if is_upper c then char_of ((of_char c :: nat) + 32) else c)"

definition ToLower :: "(string \<Rightarrow> string) \<Rightarrow> string \<Rightarrow> string" where
  "ToLower mapLower s = (if isASCII s then map lower_byte s else mapLower s)"


section \<open>Data of the program\<close>

text \<open>
  \<open>time.Time\<close>, as far as the program uses it: it prints the calendar date with the layout
  \<open>2006-01-02\<close> (year with at least four digits, month and day with two) and otherwise
  only copies time stamps.
\<close>

record Time =
  Year :: nat
  Month :: nat
  Day :: nat
  NanosOfDay :: nat

definition zero_pad :: "nat \<Rightarrow> string \<Rightarrow> string" where
  "zero_pad w s = replicate (w - length s) (CHR ''0'') @ s"

definition Format_date :: "Time \<Rightarrow> string" where
  "Format_date t =
     zero_pad 4 (decimal (Year t)) @ ''-'' @ zero_pad 2 (decimal (Month t)) @ ''-'' @
     zero_pad 2 (decimal (Day t))"

text \<open>
  Modelled from the spec: the declaration of \<open>types.GitHubActivity\<close> (package
  \<open>internal/types\<close>) is missing from the sources. Its fields are the six that the
  collectors fill and the formatter reads, the ones the specification lists for the
  Activity Record. \<open>Type\<close> is a string: the collectors assign string literals to it and
  the formatter and the counter switch on string literals.
\<close>

record GitHubActivity =
  Type :: string
  Repository :: string
  Title :: string
  Description :: string
  URL :: string
  CreatedAt :: Time

text \<open>
  Go's \<open>error\<close> values: \<open>Errorf msg\<close> is an error made from a message, \<open>Wrapf msg e\<close> is
  \<open>fmt.Errorf(msg + ": %w", e)\<close>.
\<close>

datatype error = Errorf string | Wrapf string error

text \<open>
  The items of a search result, one record for each anonymous struct the collectors decode
  into (nested fields are flattened into one name).
\<close>

record commit_item =
  commit_SHA :: string
  commit_Repository_FullName :: string
  commit_Commit_Message :: string
  commit_Commit_Author_Date :: Time
  commit_HTMLURL :: string

record issue_item =
  issue_Number :: int
  issue_Title :: string
  issue_Body :: string
  issue_State :: string
  issue_Repository_FullName :: string
  issue_HTMLURL :: string
  issue_CreatedAt :: Time

record review_item =
  review_Number :: int
  review_Title :: string
  review_Repository_FullName :: string
  review_HTMLURL :: string
  review_CreatedAt :: Time

text \<open>
  The REST client. \<open>c.client.Get(path, &searchResult)\<close> sends one request and decodes the
  body into the struct it is given, or returns an error. What it answers is outside the
  program, so it is a parameter: a function of the request paths sent so far in this run
  (oldest first) and of the path requested, giving an error or the items that
  \<open>searchResult.Items\<close> holds after the call. Each collector declares \<open>searchResult\<close> once,
  before its loop, and decodes into it again at every request: an items array in the body
  replaces the items held, while a body with no \<open>items\<close> field leaves the items of the
  previous page there (\<open>searchResult_after\<close> below). There is one such function for each
  struct the program decodes into. The state the collectors thread is the list of the paths
  requested so far.
\<close>

type_synonym 'i endpoint = "string list \<Rightarrow> string \<Rightarrow> error + 'i list"

record RESTClient =
  GetCommits :: "commit_item endpoint"
  GetIssues :: "issue_item endpoint"
  GetReviewed :: "review_item endpoint"

section \<open>Package github: the collectors and the aggregator\<close>

definition perPage :: nat where
  "perPage = 100"

text \<open>
  The pagination loop. The four collectors contain the same loop; they differ in the
  endpoint and the struct decoded into (\<open>get\<close>), the request path of a page (\<open>path\<close>), the
  record built from an item (\<open>mk\<close>) and what is returned as the error when a request fails
  (\<open>on_err\<close>: \<open>getCommits\<close> wraps the error, the others return it as it is). Like the Go
  functions, the loop returns the records gathered so far together with the error, if
  any; the last component is the list of request paths after the loop.
\<close>

function search_loop ::
  "'i endpoint \<Rightarrow> (nat \<Rightarrow> string) \<Rightarrow> ('i \<Rightarrow> GitHubActivity) \<Rightarrow> (error \<Rightarrow> error) \<Rightarrow>
   nat \<Rightarrow> GitHubActivity list \<Rightarrow> string list \<Rightarrow>
   (GitHubActivity list \<times> error option) \<times> string list" where
  "search_loop get path mk on_err page activities sent =
     (case get sent (path page) of
        Inl err \<Rightarrow> ((activities, Some (on_err err)), sent @ [path page])
      | Inr items \<Rightarrow>
          if length items = 0 then ((activities, None), sent @ [path page])
          else if length items < perPage then ((activities @ map mk items, None), sent @ [path page])
          else if page + 1 > 10 then ((activities @ map mk items, None), sent @ [path page])
          else search_loop get path mk on_err (page + 1) (activities @ map mk items)
                 (sent @ [path page]))"
  by pat_completeness auto
termination
  by (relation "measure (\<lambda>(get, path, mk, on_err, page, activities, sent). 11 - page)") auto

declare search_loop.simps [simp del]

definition escape_spaces :: "string \<Rightarrow> string" where
  "escape_spaces baseQuery = ReplaceAll baseQuery '' '' ''%20''"

definition page_params :: "nat \<Rightarrow> string" where
  "page_params page = ''&per_page='' @ fmt_d (int perPage) @ ''&page='' @ fmt_d (int page)"

subsection \<open>getCommits\<close>

text \<open>
  For each collector, the first definition is the function's \<open>baseQuery\<close>, the second the
  path it requests for a page (with \<open>escapedQuery\<close> in it), the third the record it builds
  from an item, and the last the function itself: the loop from page 1 with no record.
\<close>

definition commitsQuery :: "string \<Rightarrow> string \<Rightarrow> Time \<Rightarrow> Time \<Rightarrow> string" where
  "commitsQuery username repo startDate endDate =
     (let baseQuery = ''author:'' @ username @ '' committer-date:'' @ Format_date startDate @
                      ''..'' @ Format_date endDate
      in if repo \<noteq> [] then baseQuery @ '' repo:'' @ repo else baseQuery)"

definition commitsPath :: "string \<Rightarrow> nat \<Rightarrow> string" where
  "commitsPath baseQuery page =
     ''search/commits?q='' @ escape_spaces baseQuery @ page_params page @
     ''&sort=committer-date&order=desc''"

definition commitActivity :: "commit_item \<Rightarrow> GitHubActivity" where
  "commitActivity item =
     \<lparr> Type = ''commit'',
       Repository = commit_Repository_FullName item,
       Title = Split (commit_Commit_Message item) (CHR ''\<newline>'') ! 0,
       Description = commit_Commit_Message item,
       URL = commit_HTMLURL item,
       CreatedAt = commit_Commit_Author_Date item \<rparr>"

definition getCommits ::
  "RESTClient \<Rightarrow> string \<Rightarrow> string \<Rightarrow> Time \<Rightarrow> Time \<Rightarrow> string list \<Rightarrow>
   (GitHubActivity list \<times> error option) \<times> string list" where
  "getCommits c username repo startDate endDate sent =
     search_loop (GetCommits c) (commitsPath (commitsQuery username repo startDate endDate))
       commitActivity
       (Wrapf ''commits search failed (this is common due to GitHub API restrictions)'')
       1 [] sent"

subsection \<open>getPullRequests\<close>

definition pullRequestsQuery :: "string \<Rightarrow> string \<Rightarrow> Time \<Rightarrow> Time \<Rightarrow> string" where
  "pullRequestsQuery username repo startDate endDate =
     (let baseQuery = ''author:'' @ username @ '' created:'' @ Format_date startDate @
                      ''..'' @ Format_date endDate
      in if repo \<noteq> [] then baseQuery @ '' repo:'' @ repo else baseQuery)"

definition pullRequestsPath :: "string \<Rightarrow> nat \<Rightarrow> string" where
  "pullRequestsPath baseQuery page =
     ''search/issues?q='' @ escape_spaces baseQuery @ ''+type:pr'' @ page_params page @
     ''&sort=created&order=desc''"

definition pullRequestActivity :: "issue_item \<Rightarrow> GitHubActivity" where
  "pullRequestActivity item =
     \<lparr> Type = ''pull_request'',
       Repository = issue_Repository_FullName item,
       Title = ''PR #'' @ fmt_d (issue_Number item) @ '': '' @ issue_Title item,
       Description = issue_Body item,
       URL = issue_HTMLURL item,
       CreatedAt = issue_CreatedAt item \<rparr>"

definition getPullRequests ::
  "RESTClient \<Rightarrow> string \<Rightarrow> string \<Rightarrow> Time \<Rightarrow> Time \<Rightarrow> string list \<Rightarrow>
   (GitHubActivity list \<times> error option) \<times> string list" where
  "getPullRequests c username repo startDate endDate sent =
     search_loop (GetIssues c)
       (pullRequestsPath (pullRequestsQuery username repo startDate endDate))
       pullRequestActivity (\<lambda>err. err) 1 [] sent"

subsection \<open>getIssues\<close>

definition issuesQuery :: "string \<Rightarrow> string \<Rightarrow> Time \<Rightarrow> Time \<Rightarrow> string" where
  "issuesQuery username repo startDate endDate =
     (let baseQuery = ''author:'' @ username @ '' created:'' @ Format_date startDate @
                      ''..'' @ Format_date endDate
      in if repo \<noteq> [] then baseQuery @ '' repo:'' @ repo else baseQuery)"

definition issuesPath :: "string \<Rightarrow> nat \<Rightarrow> string" where
  "issuesPath baseQuery page =
     ''search/issues?q='' @ escape_spaces baseQuery @ ''+type:issue'' @ page_params page @
     ''&sort=created&order=desc''"

definition issueActivity :: "issue_item \<Rightarrow> GitHubActivity" where
  "issueActivity item =
     \<lparr> Type = ''issue'',
       Repository = issue_Repository_FullName item,
       Title = ''Issue #'' @ fmt_d (issue_Number item) @ '': '' @ issue_Title item,
       Description = issue_Body item,
       URL = issue_HTMLURL item,
       CreatedAt = issue_CreatedAt item \<rparr>"

definition getIssues ::
  "RESTClient \<Rightarrow> string \<Rightarrow> string \<Rightarrow> Time \<Rightarrow> Time \<Rightarrow> string list \<Rightarrow>
   (GitHubActivity list \<times> error option) \<times> string list" where
  "getIssues c username repo startDate endDate sent =
     search_loop (GetIssues c) (issuesPath (issuesQuery username repo startDate endDate))
       issueActivity (\<lambda>err. err) 1 [] sent"

subsection \<open>getReviews\<close>

text \<open>\<open>getReviews\<close> has no \<open>repo\<close> parameter.\<close>

definition reviewsQuery :: "string \<Rightarrow> Time \<Rightarrow> Time \<Rightarrow> string" where
  "reviewsQuery username startDate endDate =
     ''reviewed-by:'' @ username @ '' created:'' @ Format_date startDate @ ''..'' @
     Format_date endDate"

definition reviewsPath :: "string \<Rightarrow> nat \<Rightarrow> string" where
  "reviewsPath baseQuery page =
     ''search/issues?q='' @ escape_spaces baseQuery @ ''+type:pr'' @ page_params page @
     ''&sort=created&order=desc''"

definition reviewActivity :: "review_item \<Rightarrow> GitHubActivity" where
  "reviewActivity item =
     \<lparr> Type = ''review'',
       Repository = review_Repository_FullName item,
       Title = ''Reviewed PR #'' @ fmt_d (review_Number item) @ '': '' @ review_Title item,
       Description = ''Reviewed pull request: '' @ review_Title item,
       URL = review_HTMLURL item,
       CreatedAt = review_CreatedAt item \<rparr>"

definition getReviews ::
  "RESTClient \<Rightarrow> string \<Rightarrow> Time \<Rightarrow> Time \<Rightarrow> string list \<Rightarrow>
   (GitHubActivity list \<times> error option) \<times> string list" where
  "getReviews c username startDate endDate sent =
     search_loop (GetReviewed c) (reviewsPath (reviewsQuery username startDate endDate))
       reviewActivity (\<lambda>err. err) 1 [] sent"

subsection \<open>CollectActivity\<close>

text \<open>
  The aggregator returns \<open>(activities, err)\<close>; a \<open>nil\<close> slice is the empty list. The log
  lines it prints are not modelled.
\<close>

definition CollectActivity ::
  "RESTClient \<Rightarrow> string \<Rightarrow> string \<Rightarrow> Time \<Rightarrow> Time \<Rightarrow> string list \<Rightarrow>
   (GitHubActivity list \<times> error option) \<times> string list" where
  "CollectActivity c username repo startDate endDate sent0 =
     (let activities = [];
          ((commits, err), sent1) = getCommits c username repo startDate endDate sent0;
          activities = (if err \<noteq> None then activities else activities @ commits);
          ((prs, err), sent2) = getPullRequests c username repo startDate endDate sent1
      in case err of
           Some e \<Rightarrow> (([], Some (Wrapf ''failed to get pull requests'' e)), sent2)
         | None \<Rightarrow>
             (let activities = activities @ prs;
                  ((issues, err), sent3) = getIssues c username repo startDate endDate sent2
              in case err of
                   Some e \<Rightarrow> (([], Some (Wrapf ''failed to get issues'' e)), sent3)
                 | None \<Rightarrow>
                     (let activities = activities @ issues;
                          ((reviews, err), sent4) = getReviews c username startDate endDate sent3
                      in case err of
                           Some e \<Rightarrow> (([], Some (Wrapf ''failed to get reviews'' e)), sent4)
                         | None \<Rightarrow> ((activities @ reviews, None), sent4))))"


section \<open>Package llm: the prompt and the report\<close>

text \<open>
  The \<open>float64\<close> sampling parameters are only copied and compared with nothing, so they
  are modelled as real numbers.
\<close>

record ModelParameters =
  ParamTemperature :: real
  ParamTopP :: real

record PromptMessage =
  PromptRole :: string
  PromptContent :: string

record PromptConfig =
  ConfigName :: string
  ConfigDescription :: string
  ConfigModel :: string
  ConfigModelParameters :: ModelParameters
  ConfigMessages :: "PromptMessage list"

record Message =
  Role :: string
  Content :: string

record Request =
  Messages :: "Message list"
  Model :: string
  Temperature :: real
  TopP :: real
  Stream :: bool

record Choice =
  ChoiceMessageContent :: string

record Response =
  Choices :: "Choice list"

text \<open>The static table from model name (lower case) to temperature: a Go map, read by key.\<close>

definition modelTemperatureMap :: "(string \<times> real) list" where
  "modelTemperatureMap = [(''openai/gpt-5-mini'', 1.0), (''openai/gpt-5'', 1.0)]"

definition getMappedTemperature :: "(string \<Rightarrow> string) \<Rightarrow> string \<Rightarrow> real \<times> bool" where
  "getMappedTemperature mapLower model =
     (if model = [] then (0, False)
      else (case map_of modelTemperatureMap (ToLower mapLower model) of
              Some v \<Rightarrow> (v, True)
            | None \<Rightarrow> (0, False)))"

text \<open>
  \<open>loadPromptConfig\<close>: the embedded file \<open>standup.prompt.yml\<close> is missing from the
  sources, so what \<open>yaml.Unmarshal\<close> makes of it (a configuration or an error) is a
  parameter.
\<close>

definition loadPromptConfig :: "error + PromptConfig \<Rightarrow> error + PromptConfig" where
  "loadPromptConfig unmarshalled =
     (case unmarshalled of
        Inl err \<Rightarrow> Inl (Wrapf ''failed to parse prompt configuration'' err)
      | Inr config \<Rightarrow> Inr config)"

subsection \<open>formatActivitiesForLLM\<close>

text \<open>
  The \<open>strings.Builder\<close> is passed as the text written so far. \<open>classify\<close> is the body of
  the loop that sorts the records into the four slices; a record of any other type falls
  through the switch. \<open>writeCommit\<close>, \<open>writePullRequest\<close>, \<open>writeIssue\<close> and
  \<open>writeReview\<close> are the bodies of the four loops that write a section.
\<close>

definition classify ::
  "GitHubActivity \<Rightarrow>
   GitHubActivity list \<times> GitHubActivity list \<times> GitHubActivity list \<times> GitHubActivity list \<Rightarrow>
   GitHubActivity list \<times> GitHubActivity list \<times> GitHubActivity list \<times> GitHubActivity list" where
  "classify activity acc =
     (case acc of (commits, prs, issues, reviews) \<Rightarrow>
        if Type activity = ''commit'' then (commits @ [activity], prs, issues, reviews)
        else if Type activity = ''pull_request'' then (commits, prs @ [activity], issues, reviews)
        else if Type activity = ''issue'' then (commits, prs, issues @ [activity], reviews)
        else if Type activity = ''review'' then (commits, prs, issues, reviews @ [activity])
        else (commits, prs, issues, reviews))"

text \<open>
  \<open>entryLine a\<close> is what \<open>fmt.Sprintf\<close> makes of the repository and the title with the
  format \<open>- [%s] %s\<close> and a newline.
\<close>

definition entryLine :: "GitHubActivity \<Rightarrow> string" where
  "entryLine a = ''- ['' @ Repository a @ ''] '' @ Title a @ ''\<newline>''"

definition writeCommit :: "GitHubActivity \<Rightarrow> string \<Rightarrow> string" where
  "writeCommit commit builder =
     (let builder = builder @ entryLine commit
      in if Description commit \<noteq> Title commit then
           (let lines = Split (Description commit) (CHR ''\<newline>'')
            in if length lines > 1 \<and> lines ! 1 \<noteq> [] then
                 builder @ ''  Description: '' @ TrimSpace (lines ! 1) @ ''\<newline>''
               else builder)
         else builder)"

definition writePullRequest :: "GitHubActivity \<Rightarrow> string \<Rightarrow> string" where
  "writePullRequest pr builder =
     (let builder = builder @ entryLine pr
      in if Description pr \<noteq> [] \<and> length (Description pr) < 200 then
           builder @ ''  Description: '' @ TrimSpace (Description pr) @ ''\<newline>''
         else builder)"

definition writeIssue :: "GitHubActivity \<Rightarrow> string \<Rightarrow> string" where
  "writeIssue issue builder =
     (let builder = builder @ entryLine issue
      in if Description issue \<noteq> [] \<and> length (Description issue) < 200 then
           builder @ ''  Description: '' @ TrimSpace (Description issue) @ ''\<newline>''
         else builder)"

definition writeReview :: "GitHubActivity \<Rightarrow> string \<Rightarrow> string" where
  "writeReview review builder = builder @ entryLine review"

definition noActivity :: string where
  "noActivity = ''No GitHub activity found for the specified period.''"

definition formatActivitiesForLLM :: "GitHubActivity list \<Rightarrow> string" where
  "formatActivitiesForLLM activities =
     (if length activities = 0 then noActivity
      else
        (case fold classify activities ([], [], [], []) of (commits, prs, issues, reviews) \<Rightarrow>
           (let builder = [];
                builder = (if length commits > 0
                           then fold writeCommit commits (builder @ ''COMMITS:\<newline>'') @ ''\<newline>''
                           else builder);
                builder = (if length prs > 0
                           then fold writePullRequest prs (builder @ ''PULL REQUESTS:\<newline>'') @ ''\<newline>''
                           else builder);
                builder = (if length issues > 0
                           then fold writeIssue issues (builder @ ''ISSUES:\<newline>'') @ ''\<newline>''
                           else builder);
                builder = (if length reviews > 0
                           then fold writeReview reviews (builder @ ''CODE REVIEWS:\<newline>'') @ ''\<newline>''
                           else builder)
            in builder)))"

subsection \<open>callGitHubModels and GenerateStandupReport\<close>

text \<open>
  The completion endpoint is outside the program. \<open>Post\<close> stands for the request being
  marshalled, sent and its body read: it gives the status code and the body, or the error
  that \<open>callGitHubModels\<close> returns when one of these steps fails. \<open>Unmarshal\<close> is
  \<open>json.Unmarshal\<close> into a \<open>Response\<close>.
\<close>

record ModelsAPI =
  Post :: "Request \<Rightarrow> error + int \<times> string"
  Unmarshal :: "string \<Rightarrow> error + Response"

definition callGitHubModels :: "ModelsAPI \<Rightarrow> Request \<Rightarrow> error + Response" where
  "callGitHubModels api request =
     (case Post api request of
        Inl err \<Rightarrow> Inl err
      | Inr (StatusCode, body) \<Rightarrow>
          if StatusCode \<noteq> 200 then
            Inl (Errorf (''API request failed with status '' @ fmt_d StatusCode @ '': '' @ body))
          else (case Unmarshal api body of
                  Inl err \<Rightarrow> Inl (Wrapf ''failed to unmarshal response'' err)
                | Inr response \<Rightarrow> Inr response))"

text \<open>
  The request that \<open>GenerateStandupReport\<close> builds from the loaded configuration. A \<open>nil\<close>
  slice of prompt messages is \<open>None\<close>. \<open>mapLower\<close> is the parameter of \<open>ToLower\<close>.
\<close>

definition renderMessage :: "string \<Rightarrow> PromptMessage \<Rightarrow> Message" where
  "renderMessage activitySummary msg =
     \<lparr> Role = PromptRole msg,
       Content = ReplaceAll (PromptContent msg) ''{{activities}}'' activitySummary \<rparr>"

definition buildRequest ::
  "(string \<Rightarrow> string) \<Rightarrow> PromptConfig \<Rightarrow> GitHubActivity list \<Rightarrow> string \<Rightarrow>
   PromptMessage list option \<Rightarrow> Request" where
  "buildRequest mapLower promptConfig activities model promptMessages =
     (let activitySummary = formatActivitiesForLLM activities;
          selectedModel = (if model = [] then ConfigModel promptConfig else model);
          promptMessages = (case promptMessages of
                              None \<Rightarrow> ConfigMessages promptConfig
                            | Some msgs \<Rightarrow> msgs);
          messages = map (renderMessage activitySummary) promptMessages;
          effectiveTemperature = ParamTemperature (ConfigModelParameters promptConfig);
          effectiveTemperature = (case getMappedTemperature mapLower selectedModel of
                                    (mapped, ok) \<Rightarrow> if ok then mapped else effectiveTemperature)
      in \<lparr> Messages = messages,
           Model = selectedModel,
           Temperature = effectiveTemperature,
           TopP = ParamTopP (ConfigModelParameters promptConfig),
           Stream = False \<rparr>)"

definition GenerateStandupReport ::
  "(string \<Rightarrow> string) \<Rightarrow> error + PromptConfig \<Rightarrow> ModelsAPI \<Rightarrow> GitHubActivity list \<Rightarrow>
   string \<Rightarrow> PromptMessage list option \<Rightarrow> error + string" where
  "GenerateStandupReport mapLower unmarshalled api activities model promptMessages =
     (case loadPromptConfig unmarshalled of
        Inl err \<Rightarrow> Inl err
      | Inr promptConfig \<Rightarrow>
          (case callGitHubModels api
                  (buildRequest mapLower promptConfig activities model promptMessages) of
             Inl err \<Rightarrow> Inl err
           | Inr response \<Rightarrow>
               if length (Choices response) = 0 then
                 Inl (Errorf ''no response generated from the model'')
               else Inr (TrimSpace (ChoiceMessageContent (Choices response ! 0)))))"

section \<open>Package main: countActivities\<close>

text \<open>
  The four named results start at 0; \<open>countStep\<close> is the body of the loop. The counters
  are Go \<open>int\<close>s, which no list is long enough to overflow, so they are integers here.
\<close>

definition countStep :: "GitHubActivity \<Rightarrow> int \<times> int \<times> int \<times> int \<Rightarrow> int \<times> int \<times> int \<times> int" where
  "countStep activity acc =
     (case acc of (commits, prs, issues, reviews) \<Rightarrow>
        if Type activity = ''commit'' then (commits + 1, prs, issues, reviews)
        else if Type activity = ''pull_request'' then (commits, prs + 1, issues, reviews)
        else if Type activity = ''issue'' then (commits, prs, issues + 1, reviews)
        else if Type activity = ''review'' then (commits, prs, issues, reviews + 1)
        else (commits, prs, issues, reviews))"

definition countActivities :: "GitHubActivity list \<Rightarrow> int \<times> int \<times> int \<times> int" where
  "countActivities activities = fold countStep activities (0, 0, 0, 0)"

section \<open>Notions used to state the properties\<close>

text \<open>
  A section of the formatted text, in the specification's words: it is emitted only when
  it has entries, and then it is the header line, the entries and an empty line.
\<close>

definition block :: "string \<Rightarrow> (GitHubActivity \<Rightarrow> string) \<Rightarrow> GitHubActivity list \<Rightarrow> string" where
  "block header entry xs = (if xs = [] then [] else header @ concat (map entry xs) @ ''\<newline>'')"

text \<open>Example records for the concrete instances below.\<close>

definition ex_day :: Time where
  "ex_day = \<lparr> Year = 2024, Month = 3, Day = 7, NanosOfDay = 0 \<rparr>"

definition ex_pr :: "string \<Rightarrow> GitHubActivity" where
  "ex_pr body =
     \<lparr> Type = ''pull_request'', Repository = ''octo/app'', Title = ''PR #7: Add retry'',
       Description = body, URL = ''https://github.com/octo/app/pull/7'', CreatedAt = ex_day \<rparr>"

text \<open>
  An entry of the pull request section and of the issue section: the line
  \<open>- [<repository>] <title>\<close> and, if the description is non-empty and strictly shorter
  than 200 bytes, an indented line \<open>Description: <trimmed description>\<close>. The length is
  Go's \<open>len\<close>, which counts the bytes of the UTF-8 encoding. \<open>characters\<close> is the number
  of characters (code points) of a well-formed UTF-8 string: its bytes that do not continue
  a character, that is, all but 0x80..0xBF.
\<close>

definition characters :: "string \<Rightarrow> nat" where
  "characters s =
     length (filter (\<lambda>c. \<not> (128 \<le> (of_char c :: nat) \<and> (of_char c :: nat) < 192)) s)"

definition describedEntry :: "GitHubActivity \<Rightarrow> string" where
  "describedEntry a =
     ''- ['' @ Repository a @ ''] '' @ Title a @ ''\<newline>'' @
     (if Description a \<noteq> [] \<and> length (Description a) < 200
      then ''  Description: '' @ TrimSpace (Description a) @ ''\<newline>''
      else [])"

text \<open>
  The records of one type, and the text the formatter gives for them alone (nothing when
  there are none).
\<close>

definition only_type :: "string \<Rightarrow> GitHubActivity list \<Rightarrow> GitHubActivity list" where
  "only_type t activities = filter (\<lambda>a. Type a = t) activities"

definition section_of :: "string \<Rightarrow> GitHubActivity list \<Rightarrow> string" where
  "section_of t activities =
     (if only_type t activities = [] then [] else formatActivitiesForLLM (only_type t activities))"

definition ex_commit :: "string \<Rightarrow> commit_item" where
  "ex_commit message =
     \<lparr> commit_SHA = ''3f2a9c1'', commit_Repository_FullName = ''octo/app'',
       commit_Commit_Message = message, commit_Commit_Author_Date = ex_day,
       commit_HTMLURL = ''https://github.com/octo/app/commit/3f2a9c1'' \<rparr>"

definition ex_unknown :: GitHubActivity where
  "ex_unknown =
     \<lparr> Type = ''discussion'', Repository = ''octo/app'', Title = ''Roadmap'',
       Description = ''Plans'', URL = ''https://github.com/octo/app/discussions/1'',
       CreatedAt = ex_day \<rparr>"

text \<open>
  Case-insensitive match of two names. The program decides it on the lower-case forms: two
  names match when \<open>strings.ToLower\<close> gives the same string for both
  (\<open>lower_forms_equal\<close>). For names of ASCII bytes this is \<open>equal_ignoring_case\<close>: the same
  length and, position by position, the same byte or an upper-case ASCII letter and its
  lower-case form.
\<close>

definition lower_forms_equal :: "(string \<Rightarrow> string) \<Rightarrow> string \<Rightarrow> string \<Rightarrow> bool" where
  "lower_forms_equal mapLower s t = (ToLower mapLower s = ToLower mapLower t)"

definition same_letter :: "char \<Rightarrow> char \<Rightarrow> bool" where
  "same_letter c d =
     (c = d \<or> (is_upper c \<and> (of_char d :: nat) = of_char c + 32) \<or>
      (is_upper d \<and> (of_char c :: nat) = of_char d + 32))"

definition equal_ignoring_case :: "string \<Rightarrow> string \<Rightarrow> bool" where
  "equal_ignoring_case s t = list_all2 same_letter s t"







text \<open>More example data: a prompt configuration, a completion endpoint and REST clients
  whose answers depend on the number of requests sent before.\<close>

definition ex_config :: PromptConfig where
  "ex_config =
     \<lparr> ConfigName = ''Standup'', ConfigDescription = ''Daily standup report'',
       ConfigModel = ''openai/gpt-4o'',
       ConfigModelParameters = \<lparr> ParamTemperature = 0.7, ParamTopP = 0.9 \<rparr>,
       ConfigMessages = [\<lparr> PromptRole = ''user'', PromptContent = ''Summarise: {{activities}}'' \<rparr>] \<rparr>"

definition ex_api :: "string \<Rightarrow> ModelsAPI" where
  "ex_api content =
     \<lparr> Post = (\<lambda>request. Inr (200, ''<body>'')),
       Unmarshal = (\<lambda>body. Inr \<lparr> Choices = [\<lparr> ChoiceMessageContent = content \<rparr>] \<rparr>) \<rparr>"

definition ex_client ::
  "(nat \<Rightarrow> error + commit_item list) \<Rightarrow> (nat \<Rightarrow> error + issue_item list) \<Rightarrow>
   (nat \<Rightarrow> error + review_item list) \<Rightarrow> RESTClient" where
  "ex_client commits issues reviews =
     \<lparr> GetCommits = (\<lambda>sent path. commits (length sent)),
       GetIssues = (\<lambda>sent path. issues (length sent)),
       GetReviewed = (\<lambda>sent path. reviews (length sent)) \<rparr>"






text \<open>
  A model name with U+0130 (bytes C4 B0) in place of the \<open>i\<close>, and the part of Go's
  \<open>strings.Map(unicode.ToLower, s)\<close> that matters for it: U+0130 becomes \<open>i\<close>. Bodies of
  100 times U+00E9 (two bytes each), 25 times U+00E9 and 50 times U+1F600 (four bytes
  each).
\<close>

definition ex_dotted_model :: string where
  "ex_dotted_model = ''opena'' @ [CHR 0xC4, CHR 0xB0] @ ''/gpt-5''"

definition ex_mapLower :: "string \<Rightarrow> string" where
  "ex_mapLower s = (if s = ex_dotted_model then ''openai/gpt-5'' else s)"

definition ex_accented_body :: "nat \<Rightarrow> string" where
  "ex_accented_body n = concat (replicate n [CHR 0xC3, CHR 0xA9])"

definition ex_emoji_body :: string where
  "ex_emoji_body = concat (replicate 50 [CHR 0xF0, CHR 0x9F, CHR 0x98, CHR 0x80])"

definition ex_issue :: issue_item where
  "ex_issue =
     \<lparr> issue_Number = 7, issue_Title = ''Add retry'', issue_Body = ''Adds a retry.'',
       issue_State = ''open'', issue_Repository_FullName = ''octo/app'',
       issue_HTMLURL = ''https://github.com/octo/app/pull/7'', issue_CreatedAt = ex_day \<rparr>"

section \<open>Properties of the formatter\<close>

lemma fold_classify:
  "fold classify xs (c, p, i, r) =
     (c @ filter (\<lambda>a. Type a = ''commit'') xs,
      p @ filter (\<lambda>a. Type a = ''pull_request'') xs,
      i @ filter (\<lambda>a. Type a = ''issue'') xs,
      r @ filter (\<lambda>a. Type a = ''review'') xs)"
  by (induction xs arbitrary: c p i r) (simp_all add: classify_def)

lemma fold_writeCommit:
  "fold writeCommit xs b = b @ concat (map (\<lambda>a. writeCommit a []) xs)"
  by (induction xs arbitrary: b) (simp_all add: writeCommit_def Let_def)

lemma fold_writePullRequest:
  "fold writePullRequest xs b = b @ concat (map (\<lambda>a. writePullRequest a []) xs)"
  by (induction xs arbitrary: b) (simp_all add: writePullRequest_def Let_def)

lemma fold_writeIssue:
  "fold writeIssue xs b = b @ concat (map (\<lambda>a. writeIssue a []) xs)"
  by (induction xs arbitrary: b) (simp_all add: writeIssue_def Let_def)

lemma fold_writeReview:
  "fold writeReview xs b = b @ concat (map (\<lambda>a. writeReview a []) xs)"
  by (induction xs arbitrary: b) (simp_all add: writeReview_def)

lemma block_Nil [simp]: "block h e [] = []"
  by (simp add: block_def)

text \<open>The text for a non-empty list is the four sections in their fixed order.\<close>

lemma format_blocks:
  "activities \<noteq> [] \<Longrightarrow>
   formatActivitiesForLLM activities =
     block ''COMMITS:\<newline>'' (\<lambda>a. writeCommit a []) (filter (\<lambda>a. Type a = ''commit'') activities) @
     block ''PULL REQUESTS:\<newline>'' (\<lambda>a. writePullRequest a [])
       (filter (\<lambda>a. Type a = ''pull_request'') activities) @
     block ''ISSUES:\<newline>'' (\<lambda>a. writeIssue a []) (filter (\<lambda>a. Type a = ''issue'') activities) @
     block ''CODE REVIEWS:\<newline>'' (\<lambda>a. writeReview a []) (filter (\<lambda>a. Type a = ''review'') activities)"
  by (simp add: formatActivitiesForLLM_def fold_classify block_def Let_def
      fold_writeCommit fold_writePullRequest fold_writeIssue fold_writeReview)

lemma format_not_noActivity:
  assumes "activities \<noteq> []"
  shows "formatActivitiesForLLM activities \<noteq> noActivity"
  using format_blocks [OF assms]
  by (auto simp add: block_def noActivity_def split: if_splits)

subsection \<open>C7: the text for no activity\<close>

text \<open>
  Claim C7. Formatting the empty list of records gives exactly the sentence
  "No GitHub activity found for the specified period.", in which no section header occurs;
  and the formatter gives this sentence for the empty list only.
\<close>

theorem format_empty_list:
  "formatActivitiesForLLM [] = ''No GitHub activity found for the specified period.'' \<and>
   \<not> Contains (formatActivitiesForLLM []) ''COMMITS:'' \<and>
   \<not> Contains (formatActivitiesForLLM []) ''PULL REQUESTS:'' \<and>
   \<not> Contains (formatActivitiesForLLM []) ''ISSUES:'' \<and>
   \<not> Contains (formatActivitiesForLLM []) ''CODE REVIEWS:'' \<and>
   (formatActivitiesForLLM activities = ''No GitHub activity found for the specified period.''
      \<longleftrightarrow> activities = [])"
proof -
  have e: "formatActivitiesForLLM [] = ''No GitHub activity found for the specified period.''"
    by (simp add: formatActivitiesForLLM_def noActivity_def)
  have h: "\<not> Contains ''No GitHub activity found for the specified period.'' ''COMMITS:''"
    "\<not> Contains ''No GitHub activity found for the specified period.'' ''PULL REQUESTS:''"
    "\<not> Contains ''No GitHub activity found for the specified period.'' ''ISSUES:''"
    "\<not> Contains ''No GitHub activity found for the specified period.'' ''CODE REVIEWS:''"
    by (simp_all add: HasPrefix_def)
  have n: "activities \<noteq> [] \<Longrightarrow>
      formatActivitiesForLLM activities \<noteq> ''No GitHub activity found for the specified period.''"
    using format_not_noActivity [of activities] by (simp add: noActivity_def)
  show ?thesis using e h n by auto
qed

theorem format_empty_list_witness:
  "formatActivitiesForLLM [ex_pr ''Adds a retry.''] \<noteq>
     ''No GitHub activity found for the specified period.'' \<and>
   formatActivitiesForLLM [] = ''No GitHub activity found for the specified period.''"
  using format_empty_list [of "[ex_pr ''Adds a retry.'']"] by simp

lemma writePullRequest_Nil: "(\<lambda>a. writePullRequest a []) = describedEntry"
  by (rule ext) (simp add: writePullRequest_def describedEntry_def entryLine_def)

lemma writeIssue_Nil: "(\<lambda>a. writeIssue a []) = describedEntry"
  by (rule ext) (simp add: writeIssue_def describedEntry_def entryLine_def)

lemma filter_type_all:
  "list_all (\<lambda>a. Type a = t) xs \<Longrightarrow>
   filter (\<lambda>a. Type a = s) xs = (if s = t then xs else [])"
  by (induction xs) auto

lemma list_all_only_type: "list_all (\<lambda>a. Type a = t) (only_type t xs)"
  by (simp add: only_type_def list_all_iff)

lemma format_pull_requests:
  assumes "prs \<noteq> []" "list_all (\<lambda>a. Type a = ''pull_request'') prs"
  shows "formatActivitiesForLLM prs =
           ''PULL REQUESTS:\<newline>'' @ concat (map describedEntry prs) @ ''\<newline>''"
  using assms
  by (simp add: format_blocks filter_type_all writePullRequest_Nil block_def)

lemma format_issues:
  assumes "issues \<noteq> []" "list_all (\<lambda>a. Type a = ''issue'') issues"
  shows "formatActivitiesForLLM issues =
           ''ISSUES:\<newline>'' @ concat (map describedEntry issues) @ ''\<newline>''"
  using assms
  by (simp add: format_blocks filter_type_all writeIssue_Nil block_def)

lemma format_one_type:
  assumes "xs \<noteq> []" "list_all (\<lambda>a. Type a = t) xs"
  shows "formatActivitiesForLLM xs =
    (if t = ''commit'' then block ''COMMITS:\<newline>'' (\<lambda>a. writeCommit a []) xs
     else if t = ''pull_request'' then block ''PULL REQUESTS:\<newline>'' (\<lambda>a. writePullRequest a []) xs
     else if t = ''issue'' then block ''ISSUES:\<newline>'' (\<lambda>a. writeIssue a []) xs
     else if t = ''review'' then block ''CODE REVIEWS:\<newline>'' (\<lambda>a. writeReview a []) xs
     else [])"
  using assms by (simp add: format_blocks filter_type_all)

lemma section_of_block:
  "section_of ''commit'' activities =
     block ''COMMITS:\<newline>'' (\<lambda>a. writeCommit a []) (only_type ''commit'' activities)"
  "section_of ''pull_request'' activities =
     block ''PULL REQUESTS:\<newline>'' (\<lambda>a. writePullRequest a []) (only_type ''pull_request'' activities)"
  "section_of ''issue'' activities =
     block ''ISSUES:\<newline>'' (\<lambda>a. writeIssue a []) (only_type ''issue'' activities)"
  "section_of ''review'' activities =
     block ''CODE REVIEWS:\<newline>'' (\<lambda>a. writeReview a []) (only_type ''review'' activities)"
  using format_one_type [OF _ list_all_only_type [of "''commit''" activities]]
    format_one_type [OF _ list_all_only_type [of "''pull_request''" activities]]
    format_one_type [OF _ list_all_only_type [of "''issue''" activities]]
    format_one_type [OF _ list_all_only_type [of "''review''" activities]]
  by (simp_all add: section_of_def)

lemma format_sections:
  assumes "activities \<noteq> []"
  shows "formatActivitiesForLLM activities =
           section_of ''commit'' activities @ section_of ''pull_request'' activities @
           section_of ''issue'' activities @ section_of ''review'' activities"
  unfolding section_of_block
  using format_blocks [OF assms] by (simp add: only_type_def)

subsection \<open>C6: the description line of a pull request or an issue\<close>

lemma length_concat_replicate: "length (concat (replicate n w)) = n * length w"
  by (induction n) simp_all

lemma characters_concat_replicate: "characters (concat (replicate n w)) = n * characters w"
  by (induction n) (simp_all add: characters_def)

lemma format_long_pull_request:
  "200 \<le> length body \<Longrightarrow>
   formatActivitiesForLLM [ex_pr body] =
     ''PULL REQUESTS:\<newline>- [octo/app] PR #7: Add retry\<newline>\<newline>''"
  using format_pull_requests [of "[ex_pr body]"]
  by (simp add: ex_pr_def describedEntry_def)

text \<open>
  Claim C6 as stated fails, because the program compares the number of bytes with 200, not
  the number of characters. A pull request body of 100 times U+00E9 is non-empty and has
  100 characters but 200 bytes, and gets no description line; a body of 50 characters of
  four bytes each has 200 bytes and gets none either.
\<close>

theorem description_line_counterexample:
  "ex_accented_body 100 \<noteq> [] \<and>
   characters (ex_accented_body 100) = 100 \<and>
   length (ex_accented_body 100) = 200 \<and>
   formatActivitiesForLLM [ex_pr (ex_accented_body 100)] =
     ''PULL REQUESTS:\<newline>- [octo/app] PR #7: Add retry\<newline>\<newline>'' \<and>
   ex_emoji_body \<noteq> [] \<and>
   characters ex_emoji_body = 50 \<and>
   length ex_emoji_body = 200 \<and>
   formatActivitiesForLLM [ex_pr ex_emoji_body] =
     ''PULL REQUESTS:\<newline>- [octo/app] PR #7: Add retry\<newline>\<newline>''"
proof -
  have a: "length (ex_accented_body 100) = 200" "characters (ex_accented_body 100) = 100"
    by (simp_all add: ex_accented_body_def length_concat_replicate characters_concat_replicate)
       (simp add: characters_def)
  have e: "length ex_emoji_body = 200" "characters ex_emoji_body = 50"
    by (simp_all add: ex_emoji_body_def length_concat_replicate characters_concat_replicate)
       (simp add: characters_def)
  have n: "ex_accented_body 100 \<noteq> []" "ex_emoji_body \<noteq> []"
    using a(1) e(1) by auto
  show ?thesis
    using a e n format_long_pull_request [of "ex_accented_body 100"]
      format_long_pull_request [of ex_emoji_body]
    by simp
qed

text \<open>
  Claim C6, amended. In the text for pull requests or issues, the entry of a record is the
  line \<open>- [<repository>] <title>\<close>, followed by the indented line \<open>Description: ...\<close> if
  and only if the record's description is non-empty and strictly shorter than 200 bytes
  (\<open>describedEntry\<close>; the length is Go's \<open>len\<close> of the UTF-8 string); the text for a
  list of several types is the text of its commits, pull requests, issues and reviews one
  after the other, so this holds in every list. In particular a pull request with a body
  of 250 bytes gets no description line, and one with a body of 50 bytes gets one.
\<close>

theorem description_line_rule:
  "(prs \<noteq> [] \<and> list_all (\<lambda>a. Type a = ''pull_request'') prs \<longrightarrow>
      formatActivitiesForLLM prs =
        ''PULL REQUESTS:\<newline>'' @ concat (map describedEntry prs) @ ''\<newline>'') \<and>
   (issues \<noteq> [] \<and> list_all (\<lambda>a. Type a = ''issue'') issues \<longrightarrow>
      formatActivitiesForLLM issues =
        ''ISSUES:\<newline>'' @ concat (map describedEntry issues) @ ''\<newline>'') \<and>
   (activities \<noteq> [] \<longrightarrow>
      formatActivitiesForLLM activities =
        section_of ''commit'' activities @ section_of ''pull_request'' activities @
        section_of ''issue'' activities @ section_of ''review'' activities) \<and>
   (Type a = ''pull_request'' \<and> length (Description a) = 250 \<longrightarrow>
      formatActivitiesForLLM [a] =
        ''PULL REQUESTS:\<newline>'' @ ''- ['' @ Repository a @ ''] '' @ Title a @ ''\<newline>'' @
        ''\<newline>'') \<and>
   (Type a = ''pull_request'' \<and> length (Description a) = 50 \<longrightarrow>
      formatActivitiesForLLM [a] =
        ''PULL REQUESTS:\<newline>'' @ ''- ['' @ Repository a @ ''] '' @ Title a @ ''\<newline>'' @
        ''  Description: '' @ TrimSpace (Description a) @ ''\<newline>'' @ ''\<newline>'')"
proof -
  have one: "Type a = ''pull_request'' \<Longrightarrow>
      formatActivitiesForLLM [a] = ''PULL REQUESTS:\<newline>'' @ describedEntry a @ ''\<newline>''"
    using format_pull_requests [of "[a]"] by simp
  have long: "Type a = ''pull_request'' \<Longrightarrow> length (Description a) = 250 \<Longrightarrow>
      formatActivitiesForLLM [a] =
        ''PULL REQUESTS:\<newline>'' @ ''- ['' @ Repository a @ ''] '' @ Title a @ ''\<newline>'' @
        ''\<newline>''"
    by (simp add: one describedEntry_def)
  have short: "Type a = ''pull_request'' \<Longrightarrow> length (Description a) = 50 \<Longrightarrow>
      formatActivitiesForLLM [a] =
        ''PULL REQUESTS:\<newline>'' @ ''- ['' @ Repository a @ ''] '' @ Title a @ ''\<newline>'' @
        ''  Description: '' @ TrimSpace (Description a) @ ''\<newline>'' @ ''\<newline>''"
    by (auto simp add: one describedEntry_def)
  show ?thesis
    using format_pull_requests [of prs] format_issues [of issues] format_sections [of activities]
      long short
    by blast
qed

lemma TrimSpace_ex_body:
  "TrimSpace ''Adds a retry with backoff to the upload client.   '' =
     ''Adds a retry with backoff to the upload client.''"
  by (simp add: TrimSpace_def TrimRightSpace_def TrimLeftSpace.simps drop_space_end.simps
      space_width_def space_width_end_def ascii_space_def)

lemma TrimSpace_ex_accented: "TrimSpace (ex_accented_body 25) = ex_accented_body 25"
  by code_simp

theorem description_line_rule_witness:
  "length (replicate 250 (CHR ''x'')) = 250 \<and>
   formatActivitiesForLLM [ex_pr (replicate 250 (CHR ''x''))] =
     ''PULL REQUESTS:\<newline>- [octo/app] PR #7: Add retry\<newline>\<newline>'' \<and>
   length ''Adds a retry with backoff to the upload client.   '' = 50 \<and>
   formatActivitiesForLLM [ex_pr ''Adds a retry with backoff to the upload client.   ''] =
     ''PULL REQUESTS:\<newline>- [octo/app] PR #7: Add retry\<newline>  Description: Adds a retry with backoff to the upload client.\<newline>\<newline>'' \<and>
   length (ex_accented_body 25) = 50 \<and>
   characters (ex_accented_body 25) = 25 \<and>
   formatActivitiesForLLM [ex_pr (ex_accented_body 25)] =
     ''PULL REQUESTS:\<newline>- [octo/app] PR #7: Add retry\<newline>  Description: '' @
     ex_accented_body 25 @ ''\<newline>\<newline>''"
proof -
  have l: "length (ex_accented_body 25) = 50" "characters (ex_accented_body 25) = 25"
    by (simp_all add: ex_accented_body_def length_concat_replicate characters_concat_replicate)
       (simp add: characters_def)
  have t: "Type (ex_pr body) = ''pull_request''" "Description (ex_pr body) = body"
    "Repository (ex_pr body) = ''octo/app''" "Title (ex_pr body) = ''PR #7: Add retry''" for body
    by (simp_all add: ex_pr_def)
  show ?thesis
    using l description_line_rule [of "[]" "[]" "[]" "ex_pr (replicate 250 (CHR ''x''))"]
      description_line_rule [of "[]" "[]" "[]"
        "ex_pr ''Adds a retry with backoff to the upload client.   ''"]
      description_line_rule [of "[]" "[]" "[]" "ex_pr (ex_accented_body 25)"]
    by (simp add: t TrimSpace_ex_body TrimSpace_ex_accented)
qed

subsection \<open>C3: the description line of a commit\<close>

lemma writeCommit_Nil:
  "writeCommit a [] =
     ''- ['' @ Repository a @ ''] '' @ Title a @ ''\<newline>'' @
     (if Description a \<noteq> Title a \<and> 1 < length (Split (Description a) (CHR ''\<newline>'')) \<and>
         Split (Description a) (CHR ''\<newline>'') ! 1 \<noteq> []
      then ''  Description: '' @ TrimSpace (Split (Description a) (CHR ''\<newline>'') ! 1) @ ''\<newline>''
      else [])"
  by (simp add: writeCommit_def entryLine_def Let_def)

lemma format_one_commit:
  "Type a = ''commit'' \<Longrightarrow>
   formatActivitiesForLLM [a] = ''COMMITS:\<newline>'' @ writeCommit a [] @ ''\<newline>''"
  by (simp add: format_blocks block_def)

text \<open>
  Claim C3 as stated fails. For the commit message \<open>Fix bug\<newline>\<newline>Details here\<close> the title is
  \<open>Fix bug\<close>, but the formatted text has no description line and \<open>Details here\<close> does not
  occur in it: the second line of the message is empty.
\<close>

theorem commit_description_counterexample:
  "Title (commitActivity (ex_commit ''Fix bug\<newline>\<newline>Details here'')) = ''Fix bug'' \<and>
   formatActivitiesForLLM [commitActivity (ex_commit ''Fix bug\<newline>\<newline>Details here'')] =
     ''COMMITS:\<newline>- [octo/app] Fix bug\<newline>\<newline>'' \<and>
   \<not> Contains (formatActivitiesForLLM [commitActivity (ex_commit ''Fix bug\<newline>\<newline>Details here'')])
         ''Details here''"
  by (simp add: format_one_commit writeCommit_Nil commitActivity_def ex_commit_def HasPrefix_def)

lemma TrimSpace_Details_here: "TrimSpace ''Details here'' = ''Details here''"
  by (simp add: TrimSpace_def TrimRightSpace_def TrimLeftSpace.simps drop_space_end.simps
      space_width_def space_width_end_def ascii_space_def)

text \<open>
  Claim C3, amended. For a commit item whose message is \<open>Fix bug\<newline>\<newline>Details here\<close> the record
  has the title \<open>Fix bug\<close> and its formatted text is the entry line alone, with no
  description line. For every commit record, the indented line
  \<open>Description: <trimmed second line>\<close> is written exactly when the description differs
  from the title and its second line (index 1 after splitting on newline) exists and is
  non-empty; so the message \<open>Fix bug\<newline>Details here\<close> gets the line
  \<open>Description: Details here\<close>.
\<close>

theorem commit_description_rule:
  "(commit_Commit_Message item = ''Fix bug\<newline>\<newline>Details here'' \<longrightarrow>
      Title (commitActivity item) = ''Fix bug'' \<and>
      formatActivitiesForLLM [commitActivity item] =
        ''COMMITS:\<newline>'' @ ''- ['' @ commit_Repository_FullName item @ ''] Fix bug\<newline>'' @
        ''\<newline>'') \<and>
   (Type a = ''commit'' \<longrightarrow>
      formatActivitiesForLLM [a] =
        ''COMMITS:\<newline>'' @ ''- ['' @ Repository a @ ''] '' @ Title a @ ''\<newline>'' @
        (if Description a \<noteq> Title a \<and> 1 < length (Split (Description a) (CHR ''\<newline>'')) \<and>
            Split (Description a) (CHR ''\<newline>'') ! 1 \<noteq> []
         then ''  Description: '' @ TrimSpace (Split (Description a) (CHR ''\<newline>'') ! 1) @
              ''\<newline>''
         else []) @
        ''\<newline>'') \<and>
   (commit_Commit_Message item = ''Fix bug\<newline>Details here'' \<longrightarrow>
      Title (commitActivity item) = ''Fix bug'' \<and>
      formatActivitiesForLLM [commitActivity item] =
        ''COMMITS:\<newline>'' @ ''- ['' @ commit_Repository_FullName item @ ''] Fix bug\<newline>'' @
        ''  Description: Details here\<newline>'' @ ''\<newline>'')"
proof -
  have t: "Type (commitActivity item) = ''commit''"
    by (simp add: commitActivity_def)
  have blank: "commit_Commit_Message item = ''Fix bug\<newline>\<newline>Details here'' \<Longrightarrow>
      Title (commitActivity item) = ''Fix bug'' \<and>
      formatActivitiesForLLM [commitActivity item] =
        ''COMMITS:\<newline>'' @ ''- ['' @ commit_Repository_FullName item @ ''] Fix bug\<newline>'' @
        ''\<newline>''"
    by (simp add: format_one_commit [OF t] writeCommit_Nil) (simp add: commitActivity_def)
  have rule: "Type a = ''commit'' \<Longrightarrow>
      formatActivitiesForLLM [a] =
        ''COMMITS:\<newline>'' @ ''- ['' @ Repository a @ ''] '' @ Title a @ ''\<newline>'' @
        (if Description a \<noteq> Title a \<and> 1 < length (Split (Description a) (CHR ''\<newline>'')) \<and>
            Split (Description a) (CHR ''\<newline>'') ! 1 \<noteq> []
         then ''  Description: '' @ TrimSpace (Split (Description a) (CHR ''\<newline>'') ! 1) @
              ''\<newline>''
         else []) @
        ''\<newline>''"
    by (simp add: format_one_commit writeCommit_Nil)
  have second: "commit_Commit_Message item = ''Fix bug\<newline>Details here'' \<Longrightarrow>
      Title (commitActivity item) = ''Fix bug'' \<and>
      formatActivitiesForLLM [commitActivity item] =
        ''COMMITS:\<newline>'' @ ''- ['' @ commit_Repository_FullName item @ ''] Fix bug\<newline>'' @
        ''  Description: Details here\<newline>'' @ ''\<newline>''"
    by (simp add: format_one_commit [OF t] writeCommit_Nil)
       (simp add: commitActivity_def TrimSpace_Details_here)
  show ?thesis using blank rule second by blast
qed

theorem commit_description_rule_witness:
  "Title (commitActivity (ex_commit ''Fix bug\<newline>\<newline>Details here'')) = ''Fix bug'' \<and>
   formatActivitiesForLLM [commitActivity (ex_commit ''Fix bug\<newline>\<newline>Details here'')] =
     ''COMMITS:\<newline>- [octo/app] Fix bug\<newline>\<newline>'' \<and>
   formatActivitiesForLLM [commitActivity (ex_commit ''Fix bug\<newline>Details here'')] =
     ''COMMITS:\<newline>- [octo/app] Fix bug\<newline>  Description: Details here\<newline>\<newline>''"
  using commit_description_rule [of "ex_commit ''Fix bug\<newline>\<newline>Details here''"]
    commit_description_rule [of "ex_commit ''Fix bug\<newline>Details here''"]
  by (simp add: ex_commit_def)


section \<open>Properties of the counter\<close>

lemma fold_countStep:
  "fold countStep xs (c, p, i, r) =
     (c + int (length (filter (\<lambda>a. Type a = ''commit'') xs)),
      p + int (length (filter (\<lambda>a. Type a = ''pull_request'') xs)),
      i + int (length (filter (\<lambda>a. Type a = ''issue'') xs)),
      r + int (length (filter (\<lambda>a. Type a = ''review'') xs)))"
  by (induction xs arbitrary: c p i r) (simp_all add: countStep_def)

lemma countActivities_eq:
  "countActivities xs =
     (int (length (filter (\<lambda>a. Type a = ''commit'') xs)),
      int (length (filter (\<lambda>a. Type a = ''pull_request'') xs)),
      int (length (filter (\<lambda>a. Type a = ''issue'') xs)),
      int (length (filter (\<lambda>a. Type a = ''review'') xs)))"
  by (simp add: countActivities_def fold_countStep)

lemma known_le_length:
  "length (filter (\<lambda>a. Type a = ''commit'') xs) + length (filter (\<lambda>a. Type a = ''pull_request'') xs) +
   length (filter (\<lambda>a. Type a = ''issue'') xs) + length (filter (\<lambda>a. Type a = ''review'') xs)
   \<le> length xs"
  by (induction xs) simp_all

lemma format_only_unknown:
  assumes "Type a \<noteq> ''commit''" "Type a \<noteq> ''pull_request''" "Type a \<noteq> ''issue''"
    "Type a \<noteq> ''review''"
  shows "formatActivitiesForLLM [a] = []"
  using assms by (simp add: format_blocks)

subsection \<open>C10: records of an unknown type\<close>

text \<open>
  Claim C10. A record whose type is none of \<open>commit\<close>, \<open>pull_request\<close>, \<open>issue\<close>,
  \<open>review\<close> is dropped silently: taking it out of a list changes neither the formatted
  text (as long as other records remain; alone it gives the empty text) nor the four
  counts, and the four counts of a list that contains it sum to less than the length of
  the list.
\<close>

theorem unknown_type_dropped:
  assumes "Type a \<noteq> ''commit''" "Type a \<noteq> ''pull_request''" "Type a \<noteq> ''issue''"
    "Type a \<noteq> ''review''"
  shows "(xs @ ys \<noteq> [] \<longrightarrow>
            formatActivitiesForLLM (xs @ a # ys) = formatActivitiesForLLM (xs @ ys)) \<and>
         formatActivitiesForLLM [a] = [] \<and>
         countActivities (xs @ a # ys) = countActivities (xs @ ys) \<and>
         (case countActivities (xs @ a # ys) of
            (commits, prs, issues, reviews) \<Rightarrow>
              commits + prs + issues + reviews < int (length (xs @ a # ys)))"
proof -
  have f: "xs @ ys \<noteq> [] \<Longrightarrow>
      formatActivitiesForLLM (xs @ a # ys) = formatActivitiesForLLM (xs @ ys)"
    using assms by (simp add: format_blocks)
  have c: "countActivities (xs @ a # ys) = countActivities (xs @ ys)"
    using assms by (simp add: countActivities_eq)
  have "length (filter (\<lambda>a. Type a = ''commit'') (xs @ ys)) +
        length (filter (\<lambda>a. Type a = ''pull_request'') (xs @ ys)) +
        length (filter (\<lambda>a. Type a = ''issue'') (xs @ ys)) +
        length (filter (\<lambda>a. Type a = ''review'') (xs @ ys)) \<le> length (xs @ ys)"
    by (rule known_le_length)
  then have s: "(case countActivities (xs @ ys) of
            (commits, prs, issues, reviews) \<Rightarrow>
              commits + prs + issues + reviews < int (length (xs @ a # ys)))"
    by (simp add: countActivities_eq)
  show ?thesis using f c s format_only_unknown [OF assms] by simp
qed

theorem unknown_type_dropped_witness:
  "Type ex_unknown = ''discussion'' \<and>
   formatActivitiesForLLM [ex_pr ''Adds a retry.'', ex_unknown] =
     formatActivitiesForLLM [ex_pr ''Adds a retry.''] \<and>
   formatActivitiesForLLM [ex_unknown] = [] \<and>
   countActivities [ex_pr ''Adds a retry.'', ex_unknown] = (0, 1, 0, 0)"
  using unknown_type_dropped [of ex_unknown "[ex_pr ''Adds a retry.'']" "[]"]
  by (simp add: ex_unknown_def ex_pr_def countActivities_eq)

section \<open>Properties of the collectors and the aggregator\<close>

subsection \<open>The pagination loop\<close>






lemma search_loop_records:
  "set (fst (fst (search_loop get path mk on_err page activities sent)))
     \<subseteq> set activities \<union> range mk"
proof (induction get path mk on_err page activities sent rule: search_loop.induct)
  case (1 get path mk on_err page activities sent)
  show ?case
  proof (cases "get sent (path page)")
    case (Inl err)
    then show ?thesis by (simp add: search_loop.simps)
  next
    case (Inr items)
    show ?thesis
    proof (cases "length items = 0 \<or> length items < perPage \<or> page + 1 > 10")
      case True
      with Inr show ?thesis
        by (subst search_loop.simps) auto
    next
      case False
      then have stop: "length items \<noteq> 0" "\<not> length items < perPage" "\<not> page + 1 > 10"
        by simp_all
      have unfold: "search_loop get path mk on_err page activities sent =
          search_loop get path mk on_err (page + 1) (activities @ map mk items) (sent @ [path page])"
        using Inr stop by (subst search_loop.simps) simp
      from "1.IH" [OF Inr stop] show ?thesis
        unfolding unfold by auto
    qed
  qed
qed

subsection \<open>C2: at most ten pages, and none after a short one\<close>











subsection \<open>The aggregator\<close>

lemma CollectActivity_outcome:
  assumes "getCommits c username repo startDate endDate sent0 = ((commits, cerr), sent1)"
    and "getPullRequests c username repo startDate endDate sent1 = ((prs, perr), sent2)"
    and "getIssues c username repo startDate endDate sent2 = ((issues, ierr), sent3)"
    and "getReviews c username startDate endDate sent3 = ((reviews, rerr), sent4)"
  shows "CollectActivity c username repo startDate endDate sent0 =
    (case perr of
       Some err \<Rightarrow> (([], Some (Wrapf ''failed to get pull requests'' err)), sent2)
     | None \<Rightarrow>
        (case ierr of
           Some err \<Rightarrow> (([], Some (Wrapf ''failed to get issues'' err)), sent3)
         | None \<Rightarrow>
            (case rerr of
               Some err \<Rightarrow> (([], Some (Wrapf ''failed to get reviews'' err)), sent4)
             | None \<Rightarrow>
                 (((if cerr = None then commits else []) @ prs @ issues @ reviews, None), sent4))))"
  using assms
  by (cases cerr; cases perr; cases ierr; cases rerr) (simp_all add: CollectActivity_def)

lemma search_loop_all:
  assumes "\<And>item. P (mk item)"
  shows "list_all P (fst (fst (search_loop get path mk on_err page [] sent)))"
  using search_loop_records [of get path mk on_err page "[]" sent] assms
  by (auto simp add: list_all_iff)

lemma collector_types:
  "list_all (\<lambda>a. Type a = ''commit'') (fst (fst (getCommits c username repo startDate endDate sent)))"
  "list_all (\<lambda>a. Type a = ''pull_request'')
     (fst (fst (getPullRequests c username repo startDate endDate sent)))"
  "list_all (\<lambda>a. Type a = ''issue'') (fst (fst (getIssues c username repo startDate endDate sent)))"
  "list_all (\<lambda>a. Type a = ''review'') (fst (fst (getReviews c username startDate endDate sent)))"
  unfolding getCommits_def getPullRequests_def getIssues_def getReviews_def
  by (rule search_loop_all, simp add: commitActivity_def pullRequestActivity_def
      issueActivity_def reviewActivity_def)+

subsection \<open>C1: which failures the aggregator swallows\<close>

text \<open>
  Claim C1. Let the commit collector return \<open>(commits, cerr)\<close>. Whatever \<open>cerr\<close> is, the
  aggregator goes on. If the pull request collector then fails with \<open>err\<close>, the aggregator
  returns that error (wrapped with \<open>%w\<close>) and the requests sent are those up to the end of
  the pull request collector: no issue or review request is sent. The same holds for a
  failure of the issue collector (no review request is sent) and of the review collector.
  If the three succeed, the aggregator returns no error, also when the commit collector
  failed; in that case the result is the pull requests, issues and reviews, as if no commit
  had been found.
\<close>

theorem aggregator_failure_policy:
  "getCommits c username repo startDate endDate sent0 = ((commits, cerr), sent1) \<longrightarrow>
     (getPullRequests c username repo startDate endDate sent1 = ((prs, Some err), sent2) \<longrightarrow>
        CollectActivity c username repo startDate endDate sent0 =
          (([], Some (Wrapf ''failed to get pull requests'' err)), sent2)) \<and>
     (getPullRequests c username repo startDate endDate sent1 = ((prs, None), sent2) \<and>
      getIssues c username repo startDate endDate sent2 = ((issues, Some err), sent3) \<longrightarrow>
        CollectActivity c username repo startDate endDate sent0 =
          (([], Some (Wrapf ''failed to get issues'' err)), sent3)) \<and>
     (getPullRequests c username repo startDate endDate sent1 = ((prs, None), sent2) \<and>
      getIssues c username repo startDate endDate sent2 = ((issues, None), sent3) \<and>
      getReviews c username startDate endDate sent3 = ((reviews, Some err), sent4) \<longrightarrow>
        CollectActivity c username repo startDate endDate sent0 =
          (([], Some (Wrapf ''failed to get reviews'' err)), sent4)) \<and>
     (getPullRequests c username repo startDate endDate sent1 = ((prs, None), sent2) \<and>
      getIssues c username repo startDate endDate sent2 = ((issues, None), sent3) \<and>
      getReviews c username startDate endDate sent3 = ((reviews, None), sent4) \<longrightarrow>
        CollectActivity c username repo startDate endDate sent0 =
          (((if cerr = None then commits else []) @ prs @ issues @ reviews, None), sent4))"
  by (simp add: CollectActivity_def)

lemma ex_commits_rejected:
  "getCommits (ex_client (\<lambda>n. Inl (Errorf ''HTTP 422'')) issues reviews)
     ''bob'' [] ex_day ex_day [] =
   (([], Some (Wrapf ''commits search failed (this is common due to GitHub API restrictions)''
                 (Errorf ''HTTP 422''))),
    [commitsPath (commitsQuery ''bob'' [] ex_day ex_day) 1])"
  by (simp add: getCommits_def ex_client_def search_loop.simps)

lemma ex_commit_failure_swallowed:
  "CollectActivity
     (ex_client (\<lambda>n. Inl (Errorf ''HTTP 422''))
        (\<lambda>n. if n = 1 then Inr [ex_issue] else Inr []) (\<lambda>n. Inr []))
     ''bob'' [] ex_day ex_day [] =
   (([pullRequestActivity ex_issue], None),
    [commitsPath (commitsQuery ''bob'' [] ex_day ex_day) 1,
     pullRequestsPath (pullRequestsQuery ''bob'' [] ex_day ex_day) 1,
     issuesPath (issuesQuery ''bob'' [] ex_day ex_day) 1,
     reviewsPath (reviewsQuery ''bob'' ex_day ex_day) 1])"
  by (simp add: CollectActivity_def getCommits_def getPullRequests_def getIssues_def
      getReviews_def ex_client_def search_loop.simps perPage_def)

lemma ex_pull_requests_failed:
  "getPullRequests (ex_client (\<lambda>n. Inl (Errorf ''HTTP 422'')) (\<lambda>n. Inl (Errorf ''HTTP 500''))
       (\<lambda>n. Inr []))
     ''bob'' [] ex_day ex_day [commitsPath (commitsQuery ''bob'' [] ex_day ex_day) 1] =
   (([], Some (Errorf ''HTTP 500'')),
    [commitsPath (commitsQuery ''bob'' [] ex_day ex_day) 1,
     pullRequestsPath (pullRequestsQuery ''bob'' [] ex_day ex_day) 1])"
  by (simp add: getPullRequests_def ex_client_def search_loop.simps)

theorem aggregator_failure_policy_witness:
  "getCommits (ex_client (\<lambda>n. Inl (Errorf ''HTTP 422'')) (\<lambda>n. Inl (Errorf ''HTTP 500''))
       (\<lambda>n. Inr []))
     ''bob'' [] ex_day ex_day [] =
   (([], Some (Wrapf ''commits search failed (this is common due to GitHub API restrictions)''
                 (Errorf ''HTTP 422''))),
    [commitsPath (commitsQuery ''bob'' [] ex_day ex_day) 1]) \<and>
   CollectActivity (ex_client (\<lambda>n. Inl (Errorf ''HTTP 422'')) (\<lambda>n. Inl (Errorf ''HTTP 500''))
       (\<lambda>n. Inr []))
     ''bob'' [] ex_day ex_day [] =
   (([], Some (Wrapf ''failed to get pull requests'' (Errorf ''HTTP 500''))),
    [commitsPath (commitsQuery ''bob'' [] ex_day ex_day) 1,
     pullRequestsPath (pullRequestsQuery ''bob'' [] ex_day ex_day) 1]) \<and>
   CollectActivity
     (ex_client (\<lambda>n. Inl (Errorf ''HTTP 422''))
        (\<lambda>n. if n = 1 then Inr [ex_issue] else Inr []) (\<lambda>n. Inr []))
     ''bob'' [] ex_day ex_day [] =
   (([pullRequestActivity ex_issue], None),
    [commitsPath (commitsQuery ''bob'' [] ex_day ex_day) 1,
     pullRequestsPath (pullRequestsQuery ''bob'' [] ex_day ex_day) 1,
     issuesPath (issuesQuery ''bob'' [] ex_day ex_day) 1,
     reviewsPath (reviewsQuery ''bob'' ex_day ex_day) 1])"
  using aggregator_failure_policy
    [of "ex_client (\<lambda>n. Inl (Errorf ''HTTP 422'')) (\<lambda>n. Inl (Errorf ''HTTP 500'')) (\<lambda>n. Inr [])"
      "''bob''" "[]" ex_day ex_day "[]" "[]"
      "Some (Wrapf ''commits search failed (this is common due to GitHub API restrictions)''
                 (Errorf ''HTTP 422''))"
      "[commitsPath (commitsQuery ''bob'' [] ex_day ex_day) 1]" "[]" "Errorf ''HTTP 500''"
      "[commitsPath (commitsQuery ''bob'' [] ex_day ex_day) 1,
        pullRequestsPath (pullRequestsQuery ''bob'' [] ex_day ex_day) 1]"]
    ex_commits_rejected [of "\<lambda>n. Inl (Errorf ''HTTP 500'')" "\<lambda>n. Inr []"]
    ex_pull_requests_failed ex_commit_failure_swallowed
  by simp

subsection \<open>C9: nothing is returned together with an error\<close>

text \<open>
  Claim C9. Whenever the aggregator returns an error it returns no record: what earlier
  collectors gathered is discarded. And when the commit collector fails, the records it
  gathered from the pages before the failing one (all of type \<open>commit\<close>, and returned by
  the collector together with its error) are not in the aggregator's result: no record of
  the result has the type \<open>commit\<close>.
\<close>

theorem aggregation_discards:
  "(snd (fst (CollectActivity c username repo startDate endDate sent0)) \<noteq> None \<longrightarrow>
      fst (fst (CollectActivity c username repo startDate endDate sent0)) = []) \<and>
   list_all (\<lambda>a. Type a = ''commit'')
     (fst (fst (getCommits c username repo startDate endDate sent0))) \<and>
   (snd (fst (getCommits c username repo startDate endDate sent0)) \<noteq> None \<longrightarrow>
      list_all (\<lambda>a. Type a \<noteq> ''commit'')
        (fst (fst (CollectActivity c username repo startDate endDate sent0))))"
proof -
  obtain commits cerr sent1 where gc:
    "getCommits c username repo startDate endDate sent0 = ((commits, cerr), sent1)"
    by (metis surj_pair)
  obtain prs perr sent2 where gp:
    "getPullRequests c username repo startDate endDate sent1 = ((prs, perr), sent2)"
    by (metis surj_pair)
  obtain issues ierr sent3 where gi:
    "getIssues c username repo startDate endDate sent2 = ((issues, ierr), sent3)"
    by (metis surj_pair)
  obtain reviews rerr sent4 where gr:
    "getReviews c username startDate endDate sent3 = ((reviews, rerr), sent4)"
    by (metis surj_pair)
  have tp: "list_all (\<lambda>a. Type a = ''pull_request'') prs"
    using collector_types(2) [of c username repo startDate endDate sent1] by (simp add: gp)
  have ti: "list_all (\<lambda>a. Type a = ''issue'') issues"
    using collector_types(3) [of c username repo startDate endDate sent2] by (simp add: gi)
  have tr: "list_all (\<lambda>a. Type a = ''review'') reviews"
    using collector_types(4) [of c username startDate endDate sent3] by (simp add: gr)
  have others: "list_all (\<lambda>a. Type a \<noteq> ''commit'') (prs @ issues @ reviews)"
    using tp ti tr by (auto simp add: list_all_iff)
  have a: "snd (fst (CollectActivity c username repo startDate endDate sent0)) \<noteq> None \<longrightarrow>
      fst (fst (CollectActivity c username repo startDate endDate sent0)) = []"
    by (simp add: CollectActivity_outcome [OF gc gp gi gr] split: option.split)
  have b: "snd (fst (getCommits c username repo startDate endDate sent0)) \<noteq> None \<longrightarrow>
      list_all (\<lambda>a. Type a \<noteq> ''commit'')
        (fst (fst (CollectActivity c username repo startDate endDate sent0)))"
    using others
    by (simp add: CollectActivity_outcome [OF gc gp gi gr] gc split: option.split)
  show ?thesis using a b collector_types(1) by blast
qed

lemma ex_partial_commits:
  "getCommits
     (ex_client (\<lambda>n. if n = 0 then Inr (replicate 100 (ex_commit ''Fix bug''))
                      else Inl (Errorf ''HTTP 403''))
        issues reviews)
     ''bob'' [] ex_day ex_day [] =
   ((replicate 100 (commitActivity (ex_commit ''Fix bug'')),
     Some (Wrapf ''commits search failed (this is common due to GitHub API restrictions)''
             (Errorf ''HTTP 403''))),
    map (commitsPath (commitsQuery ''bob'' [] ex_day ex_day)) [1, 2])"
  by (simp add: getCommits_def ex_client_def search_loop.simps perPage_def numeral_2_eq_2)

lemma ex_partial_commits_dropped:
  "CollectActivity
     (ex_client (\<lambda>n. if n = 0 then Inr (replicate 100 (ex_commit ''Fix bug''))
                      else Inl (Errorf ''HTTP 403''))
        (\<lambda>n. if n = 2 then Inr [ex_issue] else Inr []) (\<lambda>n. Inr []))
     ''bob'' [] ex_day ex_day [] =
   (([pullRequestActivity ex_issue], None),
    [commitsPath (commitsQuery ''bob'' [] ex_day ex_day) 1,
     commitsPath (commitsQuery ''bob'' [] ex_day ex_day) 2,
     pullRequestsPath (pullRequestsQuery ''bob'' [] ex_day ex_day) 1,
     issuesPath (issuesQuery ''bob'' [] ex_day ex_day) 1,
     reviewsPath (reviewsQuery ''bob'' ex_day ex_day) 1])"
  by (simp add: CollectActivity_def getCommits_def getPullRequests_def getIssues_def
      getReviews_def ex_client_def search_loop.simps perPage_def numeral_2_eq_2)

lemma ex_issues_failed:
  "CollectActivity
     (ex_client (\<lambda>n. if n = 0 then Inr (replicate 100 (ex_commit ''Fix bug''))
                      else Inl (Errorf ''HTTP 403''))
        (\<lambda>n. if n = 2 then Inr [ex_issue] else Inl (Errorf ''HTTP 500'')) (\<lambda>n. Inr []))
     ''bob'' [] ex_day ex_day [] =
   (([], Some (Wrapf ''failed to get issues'' (Errorf ''HTTP 500''))),
    [commitsPath (commitsQuery ''bob'' [] ex_day ex_day) 1,
     commitsPath (commitsQuery ''bob'' [] ex_day ex_day) 2,
     pullRequestsPath (pullRequestsQuery ''bob'' [] ex_day ex_day) 1,
     issuesPath (issuesQuery ''bob'' [] ex_day ex_day) 1])"
  by (simp add: CollectActivity_def getCommits_def getPullRequests_def getIssues_def
      getReviews_def ex_client_def search_loop.simps perPage_def numeral_2_eq_2)

theorem aggregation_discards_witness:
  "fst (getCommits
     (ex_client (\<lambda>n. if n = 0 then Inr (replicate 100 (ex_commit ''Fix bug''))
                      else Inl (Errorf ''HTTP 403''))
        (\<lambda>n. if n = 2 then Inr [ex_issue] else Inr []) (\<lambda>n. Inr []))
     ''bob'' [] ex_day ex_day []) =
   (replicate 100 (commitActivity (ex_commit ''Fix bug'')),
    Some (Wrapf ''commits search failed (this is common due to GitHub API restrictions)''
            (Errorf ''HTTP 403''))) \<and>
   fst (CollectActivity
     (ex_client (\<lambda>n. if n = 0 then Inr (replicate 100 (ex_commit ''Fix bug''))
                      else Inl (Errorf ''HTTP 403''))
        (\<lambda>n. if n = 2 then Inr [ex_issue] else Inr []) (\<lambda>n. Inr []))
     ''bob'' [] ex_day ex_day []) = ([pullRequestActivity ex_issue], None) \<and>
   list_all (\<lambda>a. Type a \<noteq> ''commit'') [pullRequestActivity ex_issue] \<and>
   fst (CollectActivity
     (ex_client (\<lambda>n. if n = 0 then Inr (replicate 100 (ex_commit ''Fix bug''))
                      else Inl (Errorf ''HTTP 403''))
        (\<lambda>n. if n = 2 then Inr [ex_issue] else Inl (Errorf ''HTTP 500'')) (\<lambda>n. Inr []))
     ''bob'' [] ex_day ex_day []) =
   ([], Some (Wrapf ''failed to get issues'' (Errorf ''HTTP 500'')))"
  using aggregation_discards
    [of "ex_client (\<lambda>n. if n = 0 then Inr (replicate 100 (ex_commit ''Fix bug''))
                      else Inl (Errorf ''HTTP 403''))
        (\<lambda>n. if n = 2 then Inr [ex_issue] else Inr []) (\<lambda>n. Inr [])"
      "''bob''" "[]" ex_day ex_day "[]"]
    aggregation_discards
    [of "ex_client (\<lambda>n. if n = 0 then Inr (replicate 100 (ex_commit ''Fix bug''))
                      else Inl (Errorf ''HTTP 403''))
        (\<lambda>n. if n = 2 then Inr [ex_issue] else Inl (Errorf ''HTTP 500'')) (\<lambda>n. Inr [])"
      "''bob''" "[]" ex_day ex_day "[]"]
  by (simp add: ex_partial_commits ex_partial_commits_dropped ex_issues_failed)

subsection \<open>C4: the repository filter\<close>

text \<open>
  With a non-empty repository filter the queries of the commit, pull request and issue
  collectors end with the term \<open>repo:<owner/name>\<close>.
\<close>

lemma queries_with_repo:
  assumes "repo \<noteq> []"
  shows "commitsQuery username repo startDate endDate =
           commitsQuery username [] startDate endDate @ '' repo:'' @ repo"
    and "pullRequestsQuery username repo startDate endDate =
           pullRequestsQuery username [] startDate endDate @ '' repo:'' @ repo"
    and "issuesQuery username repo startDate endDate =
           issuesQuery username [] startDate endDate @ '' repo:'' @ repo"
  using assms by (simp_all add: commitsQuery_def pullRequestsQuery_def issuesQuery_def)

lemmas eval_paths = commitsPath_def commitsQuery_def pullRequestsPath_def pullRequestsQuery_def
  issuesPath_def issuesQuery_def reviewsPath_def reviewsQuery_def escape_spaces_def
  page_params_def Format_date_def zero_pad_def ex_day_def fmt_d_def decimal.simps digit_char_def
  ReplaceAll.simps HasPrefix_def perPage_def Let_def

text \<open>
  Claim C4 says that all four collectors put the term \<open>repo:<owner/name>\<close> into their
  query when a repository filter is given. The review collector does not: \<open>getReviews\<close>
  is not given the filter at all. The run below, with the filter \<open>octo/app\<close> and an
  endpoint that finds nothing, sends four requests; the first three contain \<open>repo:\<close>, the
  one of the review collector does not.
\<close>

theorem reviews_query_without_repo:
  "snd (CollectActivity (ex_client (\<lambda>n. Inr []) (\<lambda>n. Inr []) (\<lambda>n. Inr []))
          ''bob'' ''octo/app'' ex_day ex_day []) =
     [''search/commits?q=author:bob%20committer-date:2024-03-07..2024-03-07%20repo:octo/app&per_page=100&page=1&sort=committer-date&order=desc'',
      ''search/issues?q=author:bob%20created:2024-03-07..2024-03-07%20repo:octo/app+type:pr&per_page=100&page=1&sort=created&order=desc'',
      ''search/issues?q=author:bob%20created:2024-03-07..2024-03-07%20repo:octo/app+type:issue&per_page=100&page=1&sort=created&order=desc'',
      ''search/issues?q=reviewed-by:bob%20created:2024-03-07..2024-03-07+type:pr&per_page=100&page=1&sort=created&order=desc''] \<and>
   map (\<lambda>path. Contains path ''repo:'')
     (snd (CollectActivity (ex_client (\<lambda>n. Inr []) (\<lambda>n. Inr []) (\<lambda>n. Inr []))
             ''bob'' ''octo/app'' ex_day ex_day [])) =
     [True, True, True, False]"
proof -
  have p: "snd (CollectActivity (ex_client (\<lambda>n. Inr []) (\<lambda>n. Inr []) (\<lambda>n. Inr []))
          ''bob'' ''octo/app'' ex_day ex_day []) =
     [commitsPath (commitsQuery ''bob'' ''octo/app'' ex_day ex_day) 1,
      pullRequestsPath (pullRequestsQuery ''bob'' ''octo/app'' ex_day ex_day) 1,
      issuesPath (issuesQuery ''bob'' ''octo/app'' ex_day ex_day) 1,
      reviewsPath (reviewsQuery ''bob'' ex_day ex_day) 1]"
    by (simp add: CollectActivity_def getCommits_def getPullRequests_def getIssues_def
        getReviews_def ex_client_def search_loop.simps)
  have c: "commitsPath (commitsQuery ''bob'' ''octo/app'' ex_day ex_day) 1 =
      ''search/commits?q=author:bob%20committer-date:2024-03-07..2024-03-07%20repo:octo/app&per_page=100&page=1&sort=committer-date&order=desc''"
    by (simp add: eval_paths)
  have r: "pullRequestsPath (pullRequestsQuery ''bob'' ''octo/app'' ex_day ex_day) 1 =
      ''search/issues?q=author:bob%20created:2024-03-07..2024-03-07%20repo:octo/app+type:pr&per_page=100&page=1&sort=created&order=desc''"
    by (simp add: eval_paths)
  have i: "issuesPath (issuesQuery ''bob'' ''octo/app'' ex_day ex_day) 1 =
      ''search/issues?q=author:bob%20created:2024-03-07..2024-03-07%20repo:octo/app+type:issue&per_page=100&page=1&sort=created&order=desc''"
    by (simp add: eval_paths)
  have v: "reviewsPath (reviewsQuery ''bob'' ex_day ex_day) 1 =
      ''search/issues?q=reviewed-by:bob%20created:2024-03-07..2024-03-07+type:pr&per_page=100&page=1&sort=created&order=desc''"
    by (simp add: eval_paths)
  show ?thesis
    unfolding p c r i v by (simp add: HasPrefix_def)
qed

section \<open>Properties of the request and the report\<close>

lemma lower_byte_eq_iff:
  assumes "\<not> is_upper d"
  shows "lower_byte c = d \<longleftrightarrow> same_letter c d"
proof (cases "is_upper c")
  case True
  then have b: "(of_char c :: nat) + 32 < 256"
    by (simp add: is_upper_def Let_def)
  have "char_of ((of_char c :: nat) + 32) = d \<longleftrightarrow> (of_char d :: nat) = of_char c + 32"
  proof
    assume "char_of ((of_char c :: nat) + 32) = d"
    then have "(of_char d :: nat) = (of_char c + 32) mod 256" by (metis of_char_of)
    then show "(of_char d :: nat) = of_char c + 32" using b by simp
  next
    assume "(of_char d :: nat) = of_char c + 32"
    then show "char_of ((of_char c :: nat) + 32) = d" by (metis char_of_char)
  qed
  moreover have "c \<noteq> d" using True assms by auto
  ultimately show ?thesis using True assms by (simp add: lower_byte_def same_letter_def)
next
  case False
  then show ?thesis using assms by (simp add: lower_byte_def same_letter_def)
qed

lemma map_lower_byte_eq_iff:
  "list_all (\<lambda>d. \<not> is_upper d) k \<Longrightarrow> map lower_byte s = k \<longleftrightarrow> equal_ignoring_case s k"
proof (induction s arbitrary: k)
  case Nil
  then show ?case by (auto simp add: equal_ignoring_case_def)
next
  case (Cons c s)
  show ?case
  proof (cases k)
    case Nil
    then show ?thesis by (simp add: equal_ignoring_case_def)
  next
    case (Cons d k')
    with Cons.prems have d: "\<not> is_upper d" and k': "list_all (\<lambda>d. \<not> is_upper d) k'"
      by simp_all
    from Cons.IH [OF k'] lower_byte_eq_iff [OF d, of c] Cons show ?thesis
      by (simp add: equal_ignoring_case_def)
  qed
qed

text \<open>A name that equals a name of ASCII bytes up to the case of letters is of ASCII bytes.\<close>

lemma same_letter_ascii:
  "same_letter c d \<Longrightarrow> (of_char d :: nat) < 128 \<Longrightarrow> (of_char c :: nat) < 128"
  by (auto simp add: same_letter_def is_upper_def Let_def)

lemma equal_ignoring_case_ascii:
  "equal_ignoring_case s k \<Longrightarrow> isASCII k \<Longrightarrow> isASCII s"
  unfolding equal_ignoring_case_def isASCII_def
  by (induction s k rule: list_all2_induct) (auto dest: same_letter_ascii)

text \<open>The keys of the table are lower-case ASCII names, so \<open>ToLower\<close> leaves them.\<close>

lemma table_keys:
  "(k, v) \<in> set modelTemperatureMap \<Longrightarrow>
     isASCII k \<and> list_all (\<lambda>d. \<not> is_upper d) k \<and> k \<noteq> [] \<and> v = 1 \<and>
     (k = ''openai/gpt-5-mini'' \<or> k = ''openai/gpt-5'')"
  by (auto simp add: modelTemperatureMap_def isASCII_def is_upper_def)

lemma ToLower_key:
  assumes "(k, v) \<in> set modelTemperatureMap"
  shows "ToLower mapLower k = k"
proof -
  from table_keys [OF assms] have a: "isASCII k" and l: "list_all (\<lambda>d. \<not> is_upper d) k"
    by simp_all
  from l have "map lower_byte k = k"
    by (induction k) (simp_all add: lower_byte_def)
  with a show ?thesis by (simp add: ToLower_def)
qed

lemma ToLower_Nil: "ToLower mapLower [] = []"
  by (simp add: ToLower_def isASCII_def)

lemma lower_forms_equal_key:
  assumes "(k, v) \<in> set modelTemperatureMap"
  shows "lower_forms_equal mapLower s k \<longleftrightarrow> ToLower mapLower s = k"
  by (simp add: lower_forms_equal_def ToLower_key [OF assms])

lemma lower_forms_equal_ascii:
  assumes "(k, v) \<in> set modelTemperatureMap" and "isASCII s"
  shows "lower_forms_equal mapLower s k \<longleftrightarrow> equal_ignoring_case s k"
  using table_keys [OF assms(1)] assms(2) map_lower_byte_eq_iff [of k s]
  by (simp add: lower_forms_equal_key [OF assms(1)] ToLower_def)

lemma Temperature_buildRequest:
  "Temperature (buildRequest mapLower cfg acts model pm) =
     (let selectedModel = (if model = [] then ConfigModel cfg else model)
      in if lower_forms_equal mapLower selectedModel ''openai/gpt-5-mini'' then 1
         else if lower_forms_equal mapLower selectedModel ''openai/gpt-5'' then 1
         else ParamTemperature (ConfigModelParameters cfg))"
proof -
  have k: "(''openai/gpt-5-mini'', 1) \<in> set modelTemperatureMap"
    "(''openai/gpt-5'', 1) \<in> set modelTemperatureMap"
    by (simp_all add: modelTemperatureMap_def)
  have e: "\<not> lower_forms_equal mapLower [] ''openai/gpt-5-mini''"
    "\<not> lower_forms_equal mapLower [] ''openai/gpt-5''"
    by (simp_all add: lower_forms_equal_key [OF k(1)] lower_forms_equal_key [OF k(2)]
        ToLower_Nil)
  have m: "getMappedTemperature mapLower sel =
      (if lower_forms_equal mapLower sel ''openai/gpt-5-mini'' then (1, True)
       else if lower_forms_equal mapLower sel ''openai/gpt-5'' then (1, True)
       else (0, False))" for sel
    using e
    by (auto simp add: getMappedTemperature_def modelTemperatureMap_def
        lower_forms_equal_key [OF k(1)] lower_forms_equal_key [OF k(2)])
  show ?thesis
    by (simp add: buildRequest_def Let_def m)
qed

subsection \<open>C5: the temperature of the request\<close>

text \<open>
  Claim C5. The model of the request is the model given, or the configured one when none
  is given. If it matches a key of the static table case-insensitively (the lower-case
  forms that \<open>strings.ToLower\<close> gives are equal), the temperature of the request is the
  value of the table for that key, whatever the configuration says; if it matches no key,
  the temperature is the configured one. For a model name of ASCII bytes, matching a key is
  equality up to the case of the letters; whatever the Unicode tables are, a name that
  equals a key up to the case of ASCII letters gets the value of the key, and
  \<open>openai/gpt-5\<close> in any letter case gives 1.0. Top-p is always the configured one.
\<close>

theorem temperature_resolution:
  "Model (buildRequest mapLower cfg acts model pm) =
     (if model = [] then ConfigModel cfg else model) \<and>
   ((k, v) \<in> set modelTemperatureMap \<and>
    lower_forms_equal mapLower (Model (buildRequest mapLower cfg acts model pm)) k \<longrightarrow>
      Temperature (buildRequest mapLower cfg acts model pm) = v) \<and>
   (\<not> list_ex (\<lambda>(k, v). lower_forms_equal mapLower (Model (buildRequest mapLower cfg acts model pm)) k)
        modelTemperatureMap \<longrightarrow>
      Temperature (buildRequest mapLower cfg acts model pm) =
        ParamTemperature (ConfigModelParameters cfg)) \<and>
   ((k, v) \<in> set modelTemperatureMap \<and>
    isASCII (Model (buildRequest mapLower cfg acts model pm)) \<longrightarrow>
      lower_forms_equal mapLower (Model (buildRequest mapLower cfg acts model pm)) k =
      equal_ignoring_case (Model (buildRequest mapLower cfg acts model pm)) k) \<and>
   ((k, v) \<in> set modelTemperatureMap \<and>
    equal_ignoring_case (Model (buildRequest mapLower cfg acts model pm)) k \<longrightarrow>
      Temperature (buildRequest mapLower cfg acts model pm) = v) \<and>
   (equal_ignoring_case (Model (buildRequest mapLower cfg acts model pm)) ''openai/gpt-5'' \<longrightarrow>
      Temperature (buildRequest mapLower cfg acts model pm) = 1) \<and>
   TopP (buildRequest mapLower cfg acts model pm) = ParamTopP (ConfigModelParameters cfg)"
proof -
  define sel where "sel = (if model = [] then ConfigModel cfg else model)"
  have m: "Model (buildRequest mapLower cfg acts model pm) = sel"
    by (simp add: buildRequest_def Let_def sel_def)
  have p: "TopP (buildRequest mapLower cfg acts model pm) = ParamTopP (ConfigModelParameters cfg)"
    by (simp add: buildRequest_def Let_def)
  have t: "Temperature (buildRequest mapLower cfg acts model pm) =
      (if lower_forms_equal mapLower sel ''openai/gpt-5-mini'' then 1
       else if lower_forms_equal mapLower sel ''openai/gpt-5'' then 1
       else ParamTemperature (ConfigModelParameters cfg))"
    by (simp add: Temperature_buildRequest Let_def sel_def)
  have c2: "(k, v) \<in> set modelTemperatureMap \<and> lower_forms_equal mapLower sel k \<longrightarrow>
      Temperature (buildRequest mapLower cfg acts model pm) = v"
    using table_keys [of k v] by (auto simp add: t)
  have c3: "\<not> list_ex (\<lambda>(k, v). lower_forms_equal mapLower sel k) modelTemperatureMap \<longrightarrow>
      Temperature (buildRequest mapLower cfg acts model pm) =
        ParamTemperature (ConfigModelParameters cfg)"
    by (simp add: t modelTemperatureMap_def)
  have c4: "(k, v) \<in> set modelTemperatureMap \<and> isASCII sel \<longrightarrow>
      lower_forms_equal mapLower sel k = equal_ignoring_case sel k"
    using lower_forms_equal_ascii [of k v sel mapLower] by blast
  have a: "(k, v) \<in> set modelTemperatureMap \<Longrightarrow> equal_ignoring_case sel k \<Longrightarrow>
      lower_forms_equal mapLower sel k" for k v
    using lower_forms_equal_ascii [of k v sel mapLower] equal_ignoring_case_ascii [of sel k]
      table_keys [of k v]
    by blast
  have c5: "(k, v) \<in> set modelTemperatureMap \<and> equal_ignoring_case sel k \<longrightarrow>
      Temperature (buildRequest mapLower cfg acts model pm) = v"
    using a [of k v] c2 by blast
  have g: "(''openai/gpt-5'', 1) \<in> set modelTemperatureMap"
    by (simp add: modelTemperatureMap_def)
  have c6: "equal_ignoring_case sel ''openai/gpt-5'' \<longrightarrow>
      Temperature (buildRequest mapLower cfg acts model pm) = 1"
    using a [OF g] by (simp add: t)
  show ?thesis
    unfolding m using p c2 c3 c4 c5 c6 unfolding sel_def by blast
qed

text \<open>
  Instances: \<open>OpenAI/GPT-5\<close> gets 1.0 against a configured 0.7; \<open>openai/gpt-4o\<close> and the
  empty model name (the configured model \<open>openai/gpt-4o\<close>) get the configured 0.7; the
  name with U+0130 gets 1.0 when the tables lower U+0130 to \<open>i\<close>, as Go's do.
\<close>

theorem temperature_resolution_witness:
  "(''openai/gpt-5'', 1) \<in> set modelTemperatureMap \<and>
   equal_ignoring_case ''OpenAI/GPT-5'' ''openai/gpt-5'' \<and>
   Temperature (buildRequest ex_mapLower ex_config [] ''OpenAI/GPT-5'' None) = 1 \<and>
   TopP (buildRequest ex_mapLower ex_config [] ''OpenAI/GPT-5'' None) = 0.9 \<and>
   Temperature (buildRequest ex_mapLower ex_config [] ''openai/gpt-4o'' None) = 0.7 \<and>
   Temperature (buildRequest ex_mapLower ex_config [] [] None) = 0.7 \<and>
   \<not> isASCII ex_dotted_model \<and>
   lower_forms_equal ex_mapLower ex_dotted_model ''openai/gpt-5'' \<and>
   Temperature (buildRequest ex_mapLower ex_config [] ex_dotted_model None) = 1"
proof -
  have g: "(''openai/gpt-5'', 1) \<in> set modelTemperatureMap"
    by (simp add: modelTemperatureMap_def)
  have a: "equal_ignoring_case ''OpenAI/GPT-5'' ''openai/gpt-5''"
    by (simp add: equal_ignoring_case_def same_letter_def is_upper_def)
  have n: "\<not> isASCII ex_dotted_model" "ex_dotted_model \<noteq> []"
    by (simp_all add: isASCII_def ex_dotted_model_def)
  have d: "lower_forms_equal ex_mapLower ex_dotted_model ''openai/gpt-5''"
    using n(1) by (simp add: lower_forms_equal_key [OF g] ToLower_def ex_mapLower_def)
  have b: "\<not> list_ex (\<lambda>(k, v). lower_forms_equal ex_mapLower ''openai/gpt-4o'' k)
             modelTemperatureMap"
    by (simp add: modelTemperatureMap_def lower_forms_equal_def ToLower_def isASCII_def
        lower_byte_def is_upper_def)
  have r1: "Temperature (buildRequest ex_mapLower ex_config [] ''OpenAI/GPT-5'' None) = 1 \<and>
      TopP (buildRequest ex_mapLower ex_config [] ''OpenAI/GPT-5'' None) = 0.9"
    using a temperature_resolution
      [of ex_mapLower ex_config "[]" "''OpenAI/GPT-5''" None "''openai/gpt-5''" 1]
    by (simp add: ex_config_def)
  have r2: "Temperature (buildRequest ex_mapLower ex_config [] ''openai/gpt-4o'' None) = 0.7"
    using b temperature_resolution
      [of ex_mapLower ex_config "[]" "''openai/gpt-4o''" None "''openai/gpt-5''" 1]
    by (simp add: ex_config_def)
  have r3: "Temperature (buildRequest ex_mapLower ex_config [] [] None) = 0.7"
    using b temperature_resolution
      [of ex_mapLower ex_config "[]" "[]" None "''openai/gpt-5''" 1]
    by (simp add: ex_config_def)
  have r4: "Temperature (buildRequest ex_mapLower ex_config [] ex_dotted_model None) = 1"
    using g d n(2) temperature_resolution
      [of ex_mapLower ex_config "[]" ex_dotted_model None "''openai/gpt-5''" 1]
    by simp
  show ?thesis using g a n(1) d r1 r2 r3 r4 by blast
qed

subsection \<open>C8: the report taken from the response\<close>

lemma TrimSpace_Report_text: "TrimSpace ''  Report text  \<newline>'' = ''Report text''"
  by (simp add: TrimSpace_def TrimRightSpace_def TrimLeftSpace.simps drop_space_end.simps
      space_width_def space_width_end_def ascii_space_def)

text \<open>
  Claim C8. When the configuration loads, the endpoint answers the assembled request with
  status 200 and the body decodes, the report is the message content of the first choice
  with leading and trailing white space trimmed, and an empty list of choices gives the
  error "no response generated from the model" instead of a report. For the single choice
  with the content \<open>  Report text  \<newline>\<close> (two spaces before, two spaces and a newline
  after) the report is exactly \<open>Report text\<close>.
\<close>

theorem report_extraction:
  "Post api (buildRequest mapLower cfg acts model pm) = Inr (200, body) \<and>
   Unmarshal api body = Inr response \<longrightarrow>
     GenerateStandupReport mapLower (Inr cfg) api acts model pm =
       (case Choices response of
          [] \<Rightarrow> Inl (Errorf ''no response generated from the model'')
        | choice # _ \<Rightarrow> Inr (TrimSpace (ChoiceMessageContent choice))) \<and>
     (Choices response = [\<lparr> ChoiceMessageContent = ''  Report text  \<newline>'' \<rparr>] \<longrightarrow>
        GenerateStandupReport mapLower (Inr cfg) api acts model pm = Inr ''Report text'')"
proof (intro impI, elim conjE)
  assume p: "Post api (buildRequest mapLower cfg acts model pm) = Inr (200, body)"
    and u: "Unmarshal api body = Inr response"
  have c: "callGitHubModels api (buildRequest mapLower cfg acts model pm) = Inr response"
    by (simp add: callGitHubModels_def p u)
  have g: "GenerateStandupReport mapLower (Inr cfg) api acts model pm =
       (case Choices response of
          [] \<Rightarrow> Inl (Errorf ''no response generated from the model'')
        | choice # _ \<Rightarrow> Inr (TrimSpace (ChoiceMessageContent choice)))"
    by (simp add: GenerateStandupReport_def loadPromptConfig_def c split: list.split)
  show "GenerateStandupReport mapLower (Inr cfg) api acts model pm =
       (case Choices response of
          [] \<Rightarrow> Inl (Errorf ''no response generated from the model'')
        | choice # _ \<Rightarrow> Inr (TrimSpace (ChoiceMessageContent choice))) \<and>
     (Choices response = [\<lparr> ChoiceMessageContent = ''  Report text  \<newline>'' \<rparr>] \<longrightarrow>
        GenerateStandupReport mapLower (Inr cfg) api acts model pm = Inr ''Report text'')"
    by (simp add: g TrimSpace_Report_text)
qed

theorem report_extraction_witness:
  "Post (ex_api ''  Report text  \<newline>'')
     (buildRequest ex_mapLower ex_config [] ''openai/gpt-4o'' None) =
     Inr (200, ''<body>'') \<and>
   Unmarshal (ex_api ''  Report text  \<newline>'') ''<body>'' =
     Inr \<lparr> Choices = [\<lparr> ChoiceMessageContent = ''  Report text  \<newline>'' \<rparr>] \<rparr> \<and>
   GenerateStandupReport ex_mapLower (Inr ex_config) (ex_api ''  Report text  \<newline>'') []
     ''openai/gpt-4o'' None =
     Inr ''Report text''"
  using report_extraction [of "ex_api ''  Report text  \<newline>''" ex_mapLower ex_config "[]"
      "''openai/gpt-4o''" None
      "''<body>''" "\<lparr> Choices = [\<lparr> ChoiceMessageContent = ''  Report text  \<newline>'' \<rparr>] \<rparr>"]
  by (simp add: ex_api_def TrimSpace_Report_text)

end
